theory Spec2Isabelle
  imports Main "HOL-Library.Word"
begin

section \<open>Python values, exceptions and strings\<close>

text \<open>
  The pipeline is dynamically typed Python.  Data that arrives from outside (the Reddit
  JSON body, the yt-dlp info dictionary, the parsed LLM reply) is a value of \<open>json\<close>;
  a float is its 64-bit IEEE pattern, a dictionary an association list read with
  \<open>map_of\<close>.  A Python \<open>str\<close> is a \<open>string\<close>, one \<open>char\<close> per code point below 256.
\<close>

datatype json =
    JNull
  | JBool bool
  | JInt int
  | JFloat "64 word"
  | JStr string
  | JList "json list"
  | JDict "(string \<times> json) list"

text \<open>
  Exceptions raised by the interpreter and the standard library are identified by
  their class.  An exception that a third-party library raises (requests, yt-dlp,
  Playwright, the Anthropic client) carries its class and the text of \<open>str(e)\<close>,
  because the source formats that text into error messages.
\<close>

datatype lib_class = RequestException | PWTimeout | OtherException

type_synonym lib_error = "lib_class \<times> string"

datatype exn =
    ValueError
  | KeyError
  | IndexError
  | TypeError
  | AttributeError
  | ImportError
  | JSONDecodeError
  | Library lib_class string

fun startswith :: "string \<Rightarrow> string \<Rightarrow> bool" where
  "startswith s [] = True"
| "startswith [] (p # ps) = False"
| "startswith (c # cs) (p # ps) = (c = p \<and> startswith cs ps)"

text \<open>\<open>sub in s\<close> for two strings.\<close>

fun contains :: "string \<Rightarrow> string \<Rightarrow> bool" where
  "contains [] sub = (sub = [])"
| "contains (c # cs) sub = (startswith (c # cs) sub \<or> contains cs sub)"

text \<open>\<open>str.lower\<close> on code points below 256: A-Z and the Latin-1 capitals move by 32.\<close>

definition lower_char :: "char \<Rightarrow> char" where
  "lower_char c =
     (let n = (of_char c :: nat) in
      if (65 \<le> n \<and> n \<le> 90) \<or> (192 \<le> n \<and> n \<le> 222 \<and> n \<noteq> 215)
      then char_of (n + 32) else c)"

definition lower :: "string \<Rightarrow> string" where
  "lower s = map lower_char s"

text \<open>\<open>s.replace(old, new)\<close>: every non-overlapping occurrence, left to right.\<close>

function replace :: "string \<Rightarrow> string \<Rightarrow> string \<Rightarrow> string" where
  "replace [] old new = (if old = [] then new else [])"
| "replace (c # cs) old new =
     (if old = [] then new @ c # replace cs old new
      else if startswith (c # cs) old then new @ replace (drop (length old) (c # cs)) old new
      else c # replace cs old new)"
  by pat_completeness auto
termination
  by (relation "measure (\<lambda>(s, old, new). length s)") auto

section \<open>Platform detection\<close>

text \<open>
  \<open>urlparse(url).netloc\<close> of the standard library (\<open>urllib.parse.urlsplit\<close>, CPython
  3.11): leading C0 controls and spaces are stripped, tab, CR and LF removed, a scheme
  \<open>letter (letter | digit | + | - | .)* :\<close> is cut off, and when the rest begins with
  \<open>//\<close> the netloc runs to the first of \<open>/ ? #\<close>.  A netloc with one square bracket
  but not the other raises ValueError; with both, the bracketed host is validated by
  the \<open>ipaddress\<close> module, which is taken as the parameter \<open>bad_host\<close>
  (True when that validation raises ValueError).
\<close>

definition is_alpha :: "char \<Rightarrow> bool" where
  "is_alpha c =
     (let n = (of_char c :: nat) in (65 \<le> n \<and> n \<le> 90) \<or> (97 \<le> n \<and> n \<le> 122))"

definition is_digit :: "char \<Rightarrow> bool" where
  "is_digit c = (let n = (of_char c :: nat) in 48 \<le> n \<and> n \<le> 57)"

definition scheme_char :: "char \<Rightarrow> bool" where
  "scheme_char c = (is_alpha c \<or> is_digit c \<or> c \<in> set ''+-.'')"

definition strip_scheme :: "string \<Rightarrow> string" where
  "strip_scheme url =
     (let pre = takeWhile (\<lambda>c. c \<noteq> CHR '':'') url in
      case pre of
        [] \<Rightarrow> url
      | c # cs \<Rightarrow>
          if CHR '':'' \<in> set url \<and> is_alpha c \<and> list_all scheme_char pre
          then drop (Suc (length pre)) url else url)"

definition netloc :: "(string \<Rightarrow> bool) \<Rightarrow> string \<Rightarrow> exn + string" where
  "netloc bad_host url0 =
     (let url1 = dropWhile (\<lambda>c. (of_char c :: nat) \<le> 32) url0;
          url2 = filter (\<lambda>c. c \<notin> {CHR 0x09, CHR 0x0D, CHR 0x0A}) url1;
          url3 = strip_scheme url2
      in if startswith url3 ''//'' then
           (let loc = takeWhile (\<lambda>c. c \<notin> set ''/?#'') (drop 2 url3);
                lb = CHR ''['' \<in> set loc;
                rb = CHR '']'' \<in> set loc
            in if (lb \<and> \<not> rb) \<or> (rb \<and> \<not> lb) then Inl ValueError
               else if lb \<and> rb \<and>
                       bad_host (takeWhile (\<lambda>c. c \<noteq> CHR '']'')
                                   (drop 1 (dropWhile (\<lambda>c. c \<noteq> CHR ''['') loc)))
               then Inl ValueError
               else Inr loc)
         else Inr [])"

text \<open>The host that \<open>detect_platform\<close> matches: \<open>urlparse(url.lower()).netloc.replace("www.", "")\<close>.\<close>

definition normalized_host :: "(string \<Rightarrow> bool) \<Rightarrow> string \<Rightarrow> exn + string" where
  "normalized_host bad_host url =
     (case netloc bad_host (lower url) of
        Inl e \<Rightarrow> Inl e
      | Inr loc \<Rightarrow> Inr (replace loc ''www.'' []))"

definition platform_of_host :: "string \<Rightarrow> string" where
  "platform_of_host host =
     (if host \<in> set [''twitter.com'', ''x.com'', ''mobile.twitter.com''] then ''twitter''
      else if contains host ''reddit.com'' then ''reddit''
      else if host \<in> set [''youtube.com'', ''youtu.be'', ''m.youtube.com''] then ''youtube''
      else if contains host ''instagram.com'' then ''instagram''
      else if contains host ''facebook.com'' \<or> host = ''fb.com'' then ''facebook''
      else ''unknown'')"

definition detect_platform :: "(string \<Rightarrow> bool) \<Rightarrow> string \<Rightarrow> exn + string" where
  "detect_platform bad_host url =
     (case normalized_host bad_host url of
        Inl e \<Rightarrow> Inl e
      | Inr host \<Rightarrow> Inr (platform_of_host host))"


section \<open>More of Python's built-ins\<close>

definition nl :: char where
  "nl = CHR 0x0A"

text \<open>\<open>str.isspace\<close> on code points below 256, the characters \<open>str.strip()\<close> removes.\<close>

definition is_space :: "char \<Rightarrow> bool" where
  "is_space c =
     (let n = (of_char c :: nat) in
      (9 \<le> n \<and> n \<le> 13) \<or> (28 \<le> n \<and> n \<le> 32) \<or> n = 133 \<or> n = 160)"

definition strip :: "string \<Rightarrow> string" where
  "strip s = rev (dropWhile is_space (rev (dropWhile is_space s)))"

definition rstrip_char :: "char \<Rightarrow> string \<Rightarrow> string" where
  "rstrip_char c s = rev (dropWhile (\<lambda>d. d = c) (rev s))"

text \<open>The text after the first occurrence of \<open>sep\<close>, if there is one.\<close>

fun after_first :: "string \<Rightarrow> string \<Rightarrow> string option" where
  "after_first [] sep = (if sep = [] then Some [] else None)"
| "after_first (c # cs) sep =
     (if startswith (c # cs) sep then Some (drop (length sep) (c # cs))
      else after_first cs sep)"

text \<open>\<open>s.rsplit(sep, 1)[0]\<close>: the text before the last occurrence of \<open>sep\<close>, or all of \<open>s\<close>.\<close>

definition rsplit1_head :: "string \<Rightarrow> string \<Rightarrow> string" where
  "rsplit1_head s sep =
     (case after_first (rev s) (rev sep) of None \<Rightarrow> s | Some r \<Rightarrow> rev r)"

text \<open>
  \<open>str.title()\<close>: a cased character is upper-cased after an uncased one and lower-cased
  after a cased one.  The three Latin-1 letters whose title case lies outside Latin-1
  (181, 223, 255) are left as they are; they do not occur in a platform identifier.
\<close>

definition is_cased :: "char \<Rightarrow> bool" where
  "is_cased c =
     (let n = (of_char c :: nat) in
      (65 \<le> n \<and> n \<le> 90) \<or> (97 \<le> n \<and> n \<le> 122) \<or> n = 170 \<or> n = 181 \<or> n = 186 \<or>
      (192 \<le> n \<and> n \<noteq> 215 \<and> n \<noteq> 247))"

definition upper_char :: "char \<Rightarrow> char" where
  "upper_char c =
     (let n = (of_char c :: nat) in
      if (97 \<le> n \<and> n \<le> 122) \<or> (224 \<le> n \<and> n \<le> 254 \<and> n \<noteq> 247)
      then char_of (n - 32) else c)"

fun title_from :: "bool \<Rightarrow> string \<Rightarrow> string" where
  "title_from prev [] = []"
| "title_from prev (c # cs) =
     (if prev then lower_char c else upper_char c) # title_from (is_cased c) cs"

definition title :: "string \<Rightarrow> string" where
  "title s = title_from False s"

text \<open>\<open>os.path.join(a, b)\<close> on POSIX.\<close>

definition path_join :: "string \<Rightarrow> string \<Rightarrow> string" where
  "path_join a b =
     (if startswith b ''/'' then b
      else if a = [] \<or> startswith (rev a) ''/'' then a @ b
      else a @ ''/'' @ b)"

text \<open>\<open>str(n)\<close> for a length.\<close>

function str_of_nat :: "nat \<Rightarrow> string" where
  "str_of_nat n =
     (if n < 10 then [char_of (48 + n)]
      else str_of_nat (n div 10) @ [char_of (48 + n mod 10)])"
  by pat_completeness auto
termination
  by (relation "measure (\<lambda>n. n)") auto

declare str_of_nat.simps [simp del]

subsection \<open>Dynamically typed values\<close>

text \<open>\<open>bool(v)\<close>: a float is false when it is \<open>0.0\<close> or \<open>-0.0\<close>.\<close>

fun truthy :: "json \<Rightarrow> bool" where
  "truthy JNull = False"
| "truthy (JBool b) = b"
| "truthy (JInt i) = (i \<noteq> 0)"
| "truthy (JFloat f) = (f \<noteq> 0 \<and> f \<noteq> 0x8000000000000000)"
| "truthy (JStr s) = (s \<noteq> [])"
| "truthy (JList xs) = (xs \<noteq> [])"
| "truthy (JDict kvs) = (kvs \<noteq> [])"

text \<open>
  \<open>str(v)\<close>, which an f-string applies to each field.  The text of a number, a list or a
  dictionary is left to the parameter \<open>repr\<close>.
\<close>

fun py_str :: "(json \<Rightarrow> string) \<Rightarrow> json \<Rightarrow> string" where
  "py_str repr (JStr s) = s"
| "py_str repr JNull = ''None''"
| "py_str repr (JBool b) = (if b then ''True'' else ''False'')"
| "py_str repr v = repr v"

text \<open>\<open>v.get(key, default)\<close>: only a dictionary has the method.\<close>

fun py_get :: "json \<Rightarrow> string \<Rightarrow> json \<Rightarrow> exn + json" where
  "py_get (JDict kvs) k d = Inr (case map_of kvs k of Some v \<Rightarrow> v | None \<Rightarrow> d)"
| "py_get v k d = Inl AttributeError"

text \<open>\<open>v[0]\<close>.\<close>

fun item0 :: "json \<Rightarrow> exn + json" where
  "item0 (JList []) = Inl IndexError"
| "item0 (JList (x # xs)) = Inr x"
| "item0 (JStr []) = Inl IndexError"
| "item0 (JStr (c # cs)) = Inr (JStr [c])"
| "item0 (JDict kvs) = Inl KeyError"
| "item0 v = Inl TypeError"

text \<open>\<open>v[key]\<close> for a string key.\<close>

fun item :: "json \<Rightarrow> string \<Rightarrow> exn + json" where
  "item (JDict kvs) k = (case map_of kvs k of Some v \<Rightarrow> Inr v | None \<Rightarrow> Inl KeyError)"
| "item v k = Inl TypeError"

text \<open>\<open>d[key] = v\<close>: an existing key keeps its place, a new one goes last.\<close>

fun dict_set :: "(string \<times> json) list \<Rightarrow> string \<Rightarrow> json \<Rightarrow> (string \<times> json) list" where
  "dict_set [] k v = [(k, v)]"
| "dict_set ((k', v') # kvs) k v =
     (if k' = k then (k, v) # kvs else (k', v') # dict_set kvs k v)"

text \<open>Sequencing of computations that may raise.\<close>

definition ebind :: "exn + 'a \<Rightarrow> ('a \<Rightarrow> exn + 'b) \<Rightarrow> exn + 'b" where
  "ebind m f = (case m of Inl e \<Rightarrow> Inl e | Inr x \<Rightarrow> f x)"

section \<open>The outside world\<close>

text \<open>
  Every call that leaves the process is recorded as an event, in order.  What the
  outside answers is given by the \<open>world\<close>: each entry reads the events so far (the
  last one is the call being answered), so an answer may depend on everything that
  happened before.  Element handles of the browser page are numbers.  Printing to
  standard output is not recorded.
\<close>

datatype event =
    HttpGet string
  | YtExtractInfo string
  | YtGetTranscript json
  | MessagesCreate string
  | PwStart
  | PwLaunch string
  | PwPages
  | PwNewPage
  | PwGoto string
  | PwWaitForTimeout nat
  | PwUrl
  | PwWaitForFunction
  | PwWaitForSelector string
  | PwQuerySelector string
  | PwQuerySelectorAll string
  | ElClick nat
  | ElInnerText nat
  | ElGetAttribute nat string
  | PwClose
  | PwStop

record http_response =
  status_error :: "string option"
  body :: "json option"

record world =
  IS_SERVER :: bool
  SESSIONS_DIR :: string
  bad_host :: "string \<Rightarrow> bool"
  repr :: "json \<Rightarrow> string"
  json_loads :: "string \<Rightarrow> json option"
  yt_dlp_installed :: bool
  transcript_api_installed :: bool
  playwright_installed :: bool
  requests_get :: "event list \<Rightarrow> lib_error + http_response"
  extract_info :: "event list \<Rightarrow> lib_error + json"
  get_transcript :: "event list \<Rightarrow> lib_error + json"
  messages_create :: "event list \<Rightarrow> lib_error + string list"
  pw_command :: "event list \<Rightarrow> lib_error option"
  pw_pages :: "event list \<Rightarrow> bool"
  pw_url :: "event list \<Rightarrow> string"
  query_selector :: "event list \<Rightarrow> lib_error + nat option"
  query_selector_all :: "event list \<Rightarrow> lib_error + nat list"
  inner_text :: "event list \<Rightarrow> lib_error + string"
  get_attribute :: "event list \<Rightarrow> lib_error + string option"

text \<open>
  A computation takes the events so far and gives its outcome, a raised error or a
  value, with the events extended by its own calls.
\<close>

type_synonym ('e, 'a) prog = "event list \<Rightarrow> ('e + 'a) \<times> event list"

definition ret :: "'a \<Rightarrow> ('e, 'a) prog" where
  "ret x tr = (Inr x, tr)"

definition raise :: "'e \<Rightarrow> ('e, 'a) prog" where
  "raise e tr = (Inl e, tr)"

definition bnd :: "('e, 'a) prog \<Rightarrow> ('a \<Rightarrow> ('e, 'b) prog) \<Rightarrow> ('e, 'b) prog" where
  "bnd m k tr = (case m tr of (Inl e, tr') \<Rightarrow> (Inl e, tr') | (Inr x, tr') \<Rightarrow> k x tr')"

text \<open>
  The body of a \<open>try\<close>: its outcome becomes a value, which the \<open>except\<close> clauses then
  inspect.  A clause that does not match raises the error again.
\<close>

definition attempt :: "('e, 'a) prog \<Rightarrow> ('f, 'e + 'a) prog" where
  "attempt m tr = (case m tr of (r, tr') \<Rightarrow> (Inr r, tr'))"

definition call :: "event \<Rightarrow> (event list \<Rightarrow> lib_error + 'a) \<Rightarrow> (lib_error, 'a) prog" where
  "call ev answer tr = (answer (tr @ [ev]), tr @ [ev])"

definition command :: "world \<Rightarrow> event \<Rightarrow> (lib_error, unit) prog" where
  "command w ev =
     call ev (\<lambda>tr. case pw_command w tr of Some e \<Rightarrow> Inl e | None \<Rightarrow> Inr ())"

definition observe :: "event \<Rightarrow> (event list \<Rightarrow> 'a) \<Rightarrow> ('e, 'a) prog" where
  "observe ev answer tr = (Inr (answer (tr @ [ev])), tr @ [ev])"

text \<open>A library error that no clause catches leaves as a Python exception.\<close>

definition uncaught :: "(lib_error, 'a) prog \<Rightarrow> (exn, 'a) prog" where
  "uncaught m tr =
     (case m tr of (Inl (c, msg), tr') \<Rightarrow> (Inl (Library c msg), tr') | (Inr x, tr') \<Rightarrow> (Inr x, tr'))"

definition pure :: "exn + 'a \<Rightarrow> (exn, 'a) prog" where
  "pure r tr = (r, tr)"


section \<open>The scraper\<close>

text \<open>
  The dictionary that every retriever returns.  Its \<open>text\<close> entry is the field
  \<open>text_of\<close>.  The text and the error are strings in every retriever; the other
  entries hold whatever value the retriever found, so they are \<open>json\<close>.
\<close>

record ScrapeResult =
  platform :: string
  text_of :: string
  author :: json
  image_urls :: "json list"
  video_urls :: "json list"
  timestamp :: json
  error :: "string option"

definition error_result :: "string \<Rightarrow> string \<Rightarrow> ScrapeResult" where
  "error_result p message =
     \<lparr>platform = p, text_of = [], author = JStr [], image_urls = [], video_urls = [],
      timestamp = JStr [], error = Some message\<rparr>"

subsection \<open>Reddit\<close>

text \<open>
  \<open>re.search(r"\.(jpg|jpeg|png|gif|webp)(\?|$)", s, re.IGNORECASE)\<close>: a dot, one of the
  extensions in either case, then a question mark, the end of the string, or a single
  newline that ends the string.
\<close>

definition ext_here :: "string \<Rightarrow> bool" where
  "ext_here s =
     list_ex (\<lambda>ext. startswith (lower s) ext \<and>
                (let r = drop (length ext) s in r = [] \<or> r = [nl] \<or> startswith r ''?''))
       [''jpg'', ''jpeg'', ''png'', ''gif'', ''webp'']"

fun image_link :: "string \<Rightarrow> bool" where
  "image_link [] = False"
| "image_link (c # cs) = ((c = CHR ''.'' \<and> ext_here cs) \<or> image_link cs)"

text \<open>One round of the loop over the preview images.\<close>

definition preview_src :: "json \<Rightarrow> exn + string" where
  "preview_src img =
     ebind (py_get img ''source'' (JDict [])) (\<lambda>source.
     ebind (py_get source ''url'' (JStr [])) (\<lambda>u.
       case u of JStr s \<Rightarrow> Inr (replace s ''&amp;'' ''&'') | _ \<Rightarrow> Inl AttributeError))"

fun add_previews :: "json list \<Rightarrow> string list \<Rightarrow> exn + string list" where
  "add_previews [] urls = Inr urls"
| "add_previews (img # imgs) urls =
     ebind (preview_src img) (\<lambda>src.
       add_previews imgs
         (if src \<noteq> [] \<and> src \<notin> set urls then urls @ [src] else urls))"

text \<open>
  \<open>v[:2]\<close> as the loop iterates over it: a list gives its first two elements, a string
  its first two characters as strings; nothing else can be sliced.
\<close>

fun first_two :: "json \<Rightarrow> exn + json list" where
  "first_two (JList xs) = Inr (take 2 xs)"
| "first_two (JStr s) = Inr (map (\<lambda>c. JStr [c]) (take 2 s))"
| "first_two v = Inl TypeError"

definition reddit_video :: "json \<Rightarrow> exn + json list" where
  "reddit_video post =
     ebind (py_get post ''is_video'' JNull) (\<lambda>is_video.
       if truthy is_video then
         ebind (py_get post ''media'' (JDict [])) (\<lambda>media.
         ebind (py_get media ''reddit_video'' (JDict [])) (\<lambda>rv.
         ebind (py_get rv ''fallback_url'' JNull) (\<lambda>vid_url.
           Inr (if truthy vid_url then [vid_url] else []))))
       else Inr [])"

text \<open>The post's own link, kept when \<open>re.search\<close> finds an image extension in it.\<close>

definition direct_image :: "json \<Rightarrow> exn + string list" where
  "direct_image post_url =
     (case post_url of
        JStr u \<Rightarrow> Inr (if image_link u then [u] else [])
      | _ \<Rightarrow> Inl TypeError)"

text \<open>Everything \<open>scrape_reddit\<close> does with the post once it has been found.\<close>

definition reddit_post :: "(json \<Rightarrow> string) \<Rightarrow> json \<Rightarrow> exn + ScrapeResult" where
  "reddit_post rp post =
     ebind (py_get post ''title'' (JStr [])) (\<lambda>title.
     ebind (py_get post ''selftext'' (JStr [])) (\<lambda>body.
     ebind (py_get post ''url'' (JStr [])) (\<lambda>post_url.
     ebind (direct_image post_url) (\<lambda>direct.
     ebind (reddit_video post) (\<lambda>videos.
     ebind (py_get post ''preview'' (JDict [])) (\<lambda>preview.
     ebind (py_get preview ''images'' (JList [])) (\<lambda>images.
     ebind (first_two images) (\<lambda>imgs.
     ebind (add_previews imgs direct) (\<lambda>images_all.
     ebind (py_get post ''author'' (JStr [])) (\<lambda>a.
     ebind (py_get post ''created_utc'' (JStr [])) (\<lambda>created.
       Inr \<lparr>platform = ''reddit'',
            text_of = strip (py_str rp title @ [nl, nl] @ py_str rp body),
            author = a,
            image_urls = map JStr images_all,
            video_urls = videos,
            timestamp = JStr (py_str rp created),
            error = None\<rparr>)))))))))))"

text \<open>\<open>data[0]["data"]["children"][0]["data"]\<close> of the response body.\<close>

definition find_post :: "http_response \<Rightarrow> exn + json" where
  "find_post response =
     ebind (case body response of None \<Rightarrow> Inl JSONDecodeError | Some d \<Rightarrow> Inr d) (\<lambda>data.
     ebind (item0 data) (\<lambda>d0.
     ebind (item d0 ''data'') (\<lambda>d1.
     ebind (item d1 ''children'') (\<lambda>d2.
     ebind (item0 d2) (\<lambda>d3.
       item d3 ''data'')))))"

text \<open>The message for a body that is not a post; the source's dash is written as a hyphen.\<close>

definition not_a_post :: string where
  "not_a_post = ''Could not parse Reddit response - the URL may not point to a specific post.''"

definition fetch :: "world \<Rightarrow> string \<Rightarrow> (lib_error, http_response) prog" where
  "fetch w clean_url =
     bnd (call (HttpGet clean_url) (requests_get w)) (\<lambda>response.
       case status_error response of
         Some msg \<Rightarrow> raise (RequestException, msg)
       | None \<Rightarrow> ret response)"

definition scrape_reddit :: "world \<Rightarrow> string \<Rightarrow> (exn, ScrapeResult) prog" where
  "scrape_reddit w url =
     (let clean_url = rstrip_char CHR ''/'' (takeWhile (\<lambda>c. c \<noteq> CHR ''?'') url) @ ''.json'' in
      bnd (attempt (fetch w clean_url)) (\<lambda>got.
        case got of
          Inl (RequestException, msg) \<Rightarrow>
            ret (error_result ''reddit'' (''Could not fetch Reddit post: '' @ msg))
        | Inl (c, msg) \<Rightarrow> raise (Library c msg)
        | Inr response \<Rightarrow>
            (case find_post response of
               Inl KeyError \<Rightarrow> ret (error_result ''reddit'' not_a_post)
             | Inl IndexError \<Rightarrow> ret (error_result ''reddit'' not_a_post)
             | Inl JSONDecodeError \<Rightarrow> ret (error_result ''reddit'' not_a_post)
             | Inl e \<Rightarrow> raise e
             | Inr post \<Rightarrow> pure (reddit_post (repr w) post))))"

subsection \<open>YouTube\<close>

text \<open>\<open>(v or "")[:2000]\<close>, and \<open>str\<close> of the result.\<close>

definition description_text :: "(json \<Rightarrow> string) \<Rightarrow> json \<Rightarrow> exn + string" where
  "description_text rp v =
     (case (if truthy v then v else JStr []) of
        JStr s \<Rightarrow> Inr (take 2000 s)
      | JList xs \<Rightarrow> Inr (rp (JList (take 2000 xs)))
      | _ \<Rightarrow> Inl TypeError)"

text \<open>
  \<open>" ".join(s["text"] for s in segments)\<close>: the segments are iterated (a string gives its
  characters, a dictionary its keys), each is indexed with \<open>"text"\<close>, and every item
  joined must be a string.
\<close>

fun texts :: "json list \<Rightarrow> exn + json list" where
  "texts [] = Inr []"
| "texts (s # ss) =
     ebind (item s ''text'') (\<lambda>t. ebind (texts ss) (\<lambda>ts. Inr (t # ts)))"

fun join_texts :: "json list \<Rightarrow> exn + string" where
  "join_texts [] = Inr []"
| "join_texts (JStr x # ts) =
     ebind (join_texts ts) (\<lambda>r. Inr (if ts = [] then x else x @ '' '' @ r))"
| "join_texts (t # ts) = Inl TypeError"

fun iterate :: "json \<Rightarrow> exn + json list" where
  "iterate (JList xs) = Inr xs"
| "iterate (JStr s) = Inr (map (\<lambda>c. JStr [c]) s)"
| "iterate (JDict kvs) = Inr (map (\<lambda>k. JStr k) (remdups (map fst kvs)))"
| "iterate v = Inl TypeError"

definition transcript :: "world \<Rightarrow> json \<Rightarrow> (exn, string) prog" where
  "transcript w video_id =
     (if \<not> transcript_api_installed w then raise ImportError
      else bnd (uncaught (call (YtGetTranscript video_id) (get_transcript w))) (\<lambda>segments.
             pure (ebind (iterate segments) (\<lambda>ss.
                   ebind (texts ss) (\<lambda>ts.
                   ebind (join_texts ts) (\<lambda>joined. Inr (take 4000 joined)))))))"

definition scrape_youtube :: "world \<Rightarrow> string \<Rightarrow> (exn, ScrapeResult) prog" where
  "scrape_youtube w url =
     (if \<not> yt_dlp_installed w then
        ret (error_result ''youtube'' ''yt-dlp not installed. Run: pip install yt-dlp'')
      else
        bnd (attempt (call (YtExtractInfo url) (extract_info w))) (\<lambda>got.
          case got of
            Inl (c, msg) \<Rightarrow>
              ret (error_result ''youtube'' (''Could not fetch YouTube video info: '' @ msg))
          | Inr info \<Rightarrow>
              bnd (pure (py_get info ''title'' (JStr []))) (\<lambda>title.
              bnd (pure (ebind (py_get info ''description'' JNull) (description_text (repr w)))) (\<lambda>description.
              bnd (pure (py_get info ''uploader'' (JStr []))) (\<lambda>uploader.
              bnd (pure (py_get info ''id'' (JStr []))) (\<lambda>video_id.
              bnd (pure (py_get info ''thumbnail'' (JStr []))) (\<lambda>thumbnail.
              bnd (attempt (transcript w video_id)) (\<lambda>tr.
              bnd (pure (py_get info ''upload_date'' (JStr []))) (\<lambda>upload_date.
                ret \<lparr>platform = ''youtube'',
                     text_of = strip
                       (''Title: '' @ py_str (repr w) title @ [nl, nl] @ ''Description:'' @ [nl] @
                        description @
                        (case tr of
                           Inr t \<Rightarrow> [nl, nl] @ ''Video transcript:'' @ [nl] @ t
                         | Inl e \<Rightarrow> [nl, nl] @ ''[No captions or transcript available for this video]'')),
                     author = uploader,
                     image_urls = (if truthy thumbnail then [thumbnail] else []),
                     video_urls = [JStr url],
                     timestamp = upload_date,
                     error = None\<rparr>)))))))))"


subsection \<open>Twitter, Instagram, Facebook: the browser\<close>

text \<open>What an extraction strategy returns: a dictionary in which a key may be missing.\<close>

record extraction =
  x_text :: "string option"
  x_author :: "string option"
  x_image_urls :: "string list option"
  x_video_urls :: "string list option"
  x_error :: "string option"

definition no_keys :: extraction where
  "no_keys = \<lparr>x_text = None, x_author = None, x_image_urls = None, x_video_urls = None,
              x_error = None\<rparr>"

definition is_login_page :: "string \<Rightarrow> string \<Rightarrow> bool" where
  "is_login_page url p =
     list_ex (\<lambda>word. contains (lower url) word)
       [''login'', ''signin'', ''sign-in'', ''accounts/login'', ''/auth'', ''session/new'']"

text \<open>\<open>\w\<close> on code points below 256.\<close>

definition is_word :: "char \<Rightarrow> bool" where
  "is_word c =
     (let n = (of_char c :: nat) in
      (48 \<le> n \<and> n \<le> 57) \<or> (65 \<le> n \<and> n \<le> 90) \<or> n = 95 \<or> (97 \<le> n \<and> n \<le> 122) \<or>
      n = 170 \<or> n = 178 \<or> n = 179 \<or> n = 181 \<or> n = 185 \<or> n = 186 \<or>
      (188 \<le> n \<and> n \<le> 190) \<or> (192 \<le> n \<and> n \<noteq> 215 \<and> n \<noteq> 247))"

text \<open>
  \<open>re.sub(r"&name=\w+$", "&name=large", src)\<close>: the end of the string, or of the string
  without one final newline, is matched by \<open>$\<close>.
\<close>

definition large_name :: "string \<Rightarrow> string" where
  "large_name src =
     (let r = rev src;
          tail = (if startswith r [nl] then [nl] else []);
          b = drop (length tail) r;
          wd = takeWhile is_word b;
          rest = dropWhile is_word b
      in if wd \<noteq> [] \<and> startswith rest (rev ''&name='')
         then rev (drop 6 rest) @ ''&name=large'' @ tail
         else src)"

definition wait_for_timeout :: "world \<Rightarrow> nat \<Rightarrow> (lib_error, unit) prog" where
  "wait_for_timeout w ms = command w (PwWaitForTimeout ms)"

definition select :: "world \<Rightarrow> string \<Rightarrow> (lib_error, nat option) prog" where
  "select w selector = call (PwQuerySelector selector) (query_selector w)"

text \<open>\<open>el.get_attribute(name) or ""\<close>.\<close>

definition attribute_or_empty :: "world \<Rightarrow> nat \<Rightarrow> string \<Rightarrow> (lib_error, string) prog" where
  "attribute_or_empty w el name =
     bnd (call (ElGetAttribute el name) (get_attribute w)) (\<lambda>a.
       ret (case a of None \<Rightarrow> [] | Some v \<Rightarrow> v))"

text \<open>The loop over the selectors that may close a sign-in dialog.\<close>

fun dismiss :: "world \<Rightarrow> string list \<Rightarrow> (lib_error, unit) prog" where
  "dismiss w [] = ret ()"
| "dismiss w (selector # selectors) =
     bnd (select w selector) (\<lambda>btn.
       case btn of
         None \<Rightarrow> dismiss w selectors
       | Some el \<Rightarrow>
           bnd (attempt (bnd (command w (ElClick el)) (\<lambda>_. wait_for_timeout w 1000))) (\<lambda>r.
             case r of
               Inr u \<Rightarrow> ret ()
             | Inl (e :: lib_error) \<Rightarrow> dismiss w selectors))"

text \<open>The loop over the photographs of a tweet.\<close>

fun tweet_photos :: "world \<Rightarrow> nat list \<Rightarrow> string list \<Rightarrow> (lib_error, string list) prog" where
  "tweet_photos w [] urls = ret urls"
| "tweet_photos w (img # imgs) urls =
     bnd (attribute_or_empty w img ''src'') (\<lambda>src.
       tweet_photos w imgs
         (if contains src ''pbs.twimg.com'' then urls @ [large_name src] else urls))"

definition extract_twitter :: "world \<Rightarrow> string \<Rightarrow> (lib_error, extraction) prog" where
  \<open>extract_twitter w url =
     bnd (wait_for_timeout w 2000) (\<lambda>_.
     bnd (dismiss w [''[data-testid="sheetDialog"] [aria-label="Close"]'',
                     ''[aria-label="Close"]'',
                     ''[data-testid="app-bar-close"]'']) (\<lambda>_.
     bnd (attempt (command w (PwWaitForSelector ''article[data-testid="tweet"]''))) (\<lambda>found.
       case found of
         Inl (PWTimeout, msg) \<Rightarrow>
           ret (no_keys\<lparr>x_error := Some
             ''Tweet content not found. The post may be deleted, private, or require login.''\<rparr>)
       | Inl e \<Rightarrow> raise e
       | Inr u \<Rightarrow>
           bnd (select w ''[data-testid="tweetText"]'') (\<lambda>text_el.
           bnd (case text_el of
                  Some el \<Rightarrow> call (ElInnerText el) (inner_text w)
                | None \<Rightarrow> ret []) (\<lambda>text.
           bnd (select w ''[data-testid="User-Name"]'') (\<lambda>author_el.
           bnd (case author_el of
                  Some el \<Rightarrow> bnd (call (ElInnerText el) (inner_text w)) (\<lambda>name.
                               ret (takeWhile (\<lambda>c. c \<noteq> nl) name))
                | None \<Rightarrow> ret []) (\<lambda>author.
           bnd (call (PwQuerySelectorAll ''[data-testid="tweetPhoto"] img'')
                  (query_selector_all w)) (\<lambda>imgs.
           bnd (tweet_photos w imgs []) (\<lambda>images.
           bnd (select w ''[data-testid="videoComponent"]'') (\<lambda>video.
             ret \<lparr>x_text = Some text, x_author = Some author, x_image_urls = Some images,
                  x_video_urls = Some (case video of Some el \<Rightarrow> [url] | None \<Rightarrow> []),
                  x_error = None\<rparr>))))))))))\<close>

text \<open>The \<open>og:image\<close> and \<open>og:type\<close> tags, read the same way for Instagram and Facebook.\<close>

definition og_image_urls :: "world \<Rightarrow> nat option \<Rightarrow> (lib_error, string list) prog" where
  "og_image_urls w og_image =
     (case og_image of
        Some el \<Rightarrow> bnd (attribute_or_empty w el ''content'') (\<lambda>c. ret [c])
      | None \<Rightarrow> ret [])"

definition og_video_urls :: "world \<Rightarrow> string \<Rightarrow> nat option \<Rightarrow> (lib_error, string list) prog" where
  "og_video_urls w url og_type =
     (case og_type of
        Some el \<Rightarrow> bnd (attribute_or_empty w el ''content'') (\<lambda>c.
                     ret (if contains c ''video'' then [url] else []))
      | None \<Rightarrow> ret [])"

definition og_content :: "world \<Rightarrow> nat option \<Rightarrow> (lib_error, string) prog" where
  "og_content w tag =
     (case tag of Some el \<Rightarrow> attribute_or_empty w el ''content'' | None \<Rightarrow> ret [])"

definition extract_instagram :: "world \<Rightarrow> string \<Rightarrow> (lib_error, extraction) prog" where
  \<open>extract_instagram w url =
     bnd (wait_for_timeout w 2000) (\<lambda>_.
     bnd (select w ''meta[property="og:description"]'') (\<lambda>og_desc.
     bnd (select w ''meta[property="og:image"]'') (\<lambda>og_image.
     bnd (select w ''meta[property="og:type"]'') (\<lambda>og_type.
     bnd (og_content w og_desc) (\<lambda>text.
     bnd (og_image_urls w og_image) (\<lambda>images.
     bnd (og_video_urls w url og_type) (\<lambda>videos.
       ret \<lparr>x_text = Some text, x_author = Some [], x_image_urls = Some images,
            x_video_urls = Some videos, x_error = None\<rparr>)))))))\<close>

definition extract_facebook :: "world \<Rightarrow> string \<Rightarrow> (lib_error, extraction) prog" where
  \<open>extract_facebook w url =
     bnd (wait_for_timeout w 2000) (\<lambda>_.
     bnd (select w ''meta[property="og:title"]'') (\<lambda>og_title.
     bnd (select w ''meta[property="og:description"]'') (\<lambda>og_desc.
     bnd (select w ''meta[property="og:image"]'') (\<lambda>og_image.
     bnd (select w ''meta[property="og:type"]'') (\<lambda>og_type.
     bnd (og_content w og_title) (\<lambda>title.
     bnd (og_content w og_desc) (\<lambda>desc.
     bnd (og_image_urls w og_image) (\<lambda>images.
     bnd (og_video_urls w url og_type) (\<lambda>videos.
       ret \<lparr>x_text = Some (strip (title @ [nl, nl] @ desc)), x_author = Some [],
            x_image_urls = Some images, x_video_urls = Some videos,
            x_error = None\<rparr>)))))))))\<close>

text \<open>
  The wait for a manual login.  Some result means that \<open>scrape_playwright\<close> returns it at
  once; None that it goes on to the extraction.
\<close>

definition login_wall :: "world \<Rightarrow> string \<Rightarrow> string \<Rightarrow> (lib_error, ScrapeResult option) prog" where
  "login_wall w url p =
     bnd (observe PwUrl (pw_url w)) (\<lambda>current.
       if is_login_page current p then
         bnd (attempt (bnd (command w PwWaitForFunction) (\<lambda>_.
                       bnd (wait_for_timeout w 3000) (\<lambda>_.
                       bnd (command w (PwGoto url)) (\<lambda>_.
                         wait_for_timeout w 3000))))) (\<lambda>r.
           case r of
             Inl (e :: lib_error) \<Rightarrow>
               bnd (command w PwClose) (\<lambda>_.
                 ret (Some (error_result p ''Login timed out (90 seconds). Please try again.'')))
           | Inr u \<Rightarrow> ret None)
       else ret None)"

definition extract_content :: "world \<Rightarrow> string \<Rightarrow> string \<Rightarrow> (lib_error, extraction) prog" where
  "extract_content w url p =
     (if p = ''twitter'' then extract_twitter w url
      else if p = ''instagram'' then extract_instagram w url
      else if p = ''facebook'' then extract_facebook w url
      else ret no_keys)"

text \<open>
  The body of \<open>with sync_playwright() as p\<close>.  Inl is a result returned from inside the
  block, Inr the extraction with which the block ends.
\<close>

definition in_browser :: "world \<Rightarrow> string \<Rightarrow> string \<Rightarrow> (lib_error, ScrapeResult + extraction) prog" where
  "in_browser w url p =
     bnd (command w (PwLaunch (path_join (SESSIONS_DIR w) p))) (\<lambda>_.
     bnd (observe PwPages (pw_pages w)) (\<lambda>has_pages.
     bnd (if has_pages then ret () else command w PwNewPage) (\<lambda>_.
     bnd (attempt (command w (PwGoto url))) (\<lambda>loaded.
       case loaded of
         Inl (c, msg) \<Rightarrow>
           bnd (command w PwClose) (\<lambda>_.
             ret (Inl (error_result p (''Page failed to load: '' @ msg))))
       | Inr u \<Rightarrow>
           bnd (wait_for_timeout w 3000) (\<lambda>_.
           bnd (login_wall w url p) (\<lambda>gave_up.
             case gave_up of
               Some r \<Rightarrow> ret (Inl r)
             | None \<Rightarrow>
                 bnd (attempt (extract_content w url p)) (\<lambda>got.
                 bnd (command w PwClose) (\<lambda>_.
                   ret (Inr (case got of
                      Inl (c, msg) \<Rightarrow>
                        no_keys\<lparr>x_error := Some (''Content extraction failed: '' @ msg)\<rparr>
                    | Inr result \<Rightarrow> result))))))))))"

text \<open>Entering and leaving \<open>with sync_playwright()\<close>: the exit runs on every path.\<close>

definition with_playwright :: "world \<Rightarrow> (lib_error, 'a) prog \<Rightarrow> (lib_error, 'a) prog" where
  "with_playwright w block =
     bnd (command w PwStart) (\<lambda>_.
     bnd (attempt block) (\<lambda>r.
     bnd (command w PwStop) (\<lambda>_.
       case r of Inl (e :: lib_error) \<Rightarrow> raise e | Inr x \<Rightarrow> ret x)))"

definition key_or :: "'a option \<Rightarrow> 'a \<Rightarrow> 'a" where
  "key_or v d = (case v of Some x \<Rightarrow> x | None \<Rightarrow> d)"

definition scrape_playwright :: "world \<Rightarrow> string \<Rightarrow> string \<Rightarrow> (exn, ScrapeResult) prog" where
  "scrape_playwright w url p =
     (if IS_SERVER w then
        ret (error_result p
          (''Scraping '' @ title p @
           '' requires a logged-in browser session, which only works '' @
           ''in the desktop version of this tool. Please copy and paste the post text manually.''))
      else if \<not> playwright_installed w then
        ret (error_result p
          ''Playwright not installed. Run: pip install playwright && playwright install chromium'')
      else
        bnd (uncaught (with_playwright w (in_browser w url p))) (\<lambda>out.
          case out of
            Inl r \<Rightarrow> ret r
          | Inr result \<Rightarrow>
              ret \<lparr>platform = p,
                   text_of = key_or (x_text result) [],
                   author = JStr (key_or (x_author result) []),
                   image_urls = map JStr (key_or (x_image_urls result) []),
                   video_urls = map JStr (key_or (x_video_urls result) []),
                   timestamp = JStr [],
                   error = x_error result\<rparr>))"

subsection \<open>The dispatcher\<close>

text \<open>
  The table \<open>scrapers\<close> has the five platforms; looking up any other key would raise
  KeyError, which cannot happen after \<open>detect_platform\<close>.
\<close>

definition scrape :: "world \<Rightarrow> string \<Rightarrow> (exn, ScrapeResult) prog" where
  "scrape w url =
     bnd (pure (detect_platform (bad_host w) url)) (\<lambda>p.
       if p = ''unknown'' then
         ret (error_result ''unknown''
           ''Unrecognized URL. Supported: X/Twitter, Reddit, YouTube, Instagram, Facebook.'')
       else if p \<in> set [''twitter'', ''instagram'', ''facebook''] then scrape_playwright w url p
       else if p = ''reddit'' then scrape_reddit w url
       else if p = ''youtube'' then scrape_youtube w url
       else raise KeyError)"


section \<open>Claim extraction\<close>

definition fence :: string where
  "fence = [CHR 0x60, CHR 0x60, CHR 0x60]"

definition user_message :: "string \<Rightarrow> string \<Rightarrow> string" where
  "user_message text url =
     (if url \<noteq> [] then ''Original post URL: '' @ url @ [nl, nl] else []) @
     ''Please analyze this social media post and extract all factual claims:'' @ [nl, nl] @
     ''---'' @ [nl] @ text @ [nl] @ ''---''"

text \<open>
  The two assignments to \<open>raw_text\<close> inside the \<open>try\<close>: \<open>split("\n", 1)[1]\<close> raises
  IndexError when the reply has no newline.
\<close>

definition strip_fence :: "string \<Rightarrow> exn + string" where
  "strip_fence raw_text =
     (if startswith raw_text fence then
        (case after_first raw_text [nl] of
           None \<Rightarrow> Inl IndexError
         | Some rest \<Rightarrow> Inr (strip (rsplit1_head rest fence)))
      else Inr raw_text)"

definition unparsed :: string where
  "unparsed = ''Claude returned a response that could not be parsed as structured data. '' @
              ''The raw response is shown in 'summary'.''"

text \<open>
  The \<open>try\<close> block of \<open>extract_and_classify\<close> and its one \<open>except\<close> clause, for
  JSONDecodeError.  \<open>loads\<close> is \<open>json.loads\<close>, None when it raises JSONDecodeError.
\<close>

definition parse_reply :: "(string \<Rightarrow> json option) \<Rightarrow> string \<Rightarrow> exn + json" where
  "parse_reply loads raw_text =
     ebind (strip_fence raw_text) (\<lambda>stripped.
       case loads stripped of
         Some result \<Rightarrow> Inr result
       | None \<Rightarrow> Inr (JDict [(''claims'', JList []), (''summary'', JStr stripped),
                             (''error'', JStr unparsed)]))"

definition extract_and_classify :: "world \<Rightarrow> string \<Rightarrow> string \<Rightarrow> (exn, json) prog" where
  "extract_and_classify w text url =
     bnd (uncaught (call (MessagesCreate (user_message text url)) (messages_create w))) (\<lambda>content.
       case content of
         [] \<Rightarrow> raise IndexError
       | first # others \<Rightarrow> pure (parse_reply (json_loads w) (strip first)))"

section \<open>The analyze endpoint\<close>

record PostInput =
  post_text :: string
  post_url :: string

definition scraped_json :: "ScrapeResult \<Rightarrow> json" where
  "scraped_json r =
     JDict [(''platform'', JStr (platform r)), (''text'', JStr (text_of r)),
            (''author'', author r), (''image_urls'', JList (image_urls r)),
            (''video_urls'', JList (video_urls r)), (''timestamp'', timestamp r),
            (''error'', case error r of None \<Rightarrow> JNull | Some m \<Rightarrow> JStr m)]"

definition refusal :: "string \<Rightarrow> json" where
  "refusal message =
     JDict [(''error'', JStr message), (''claims'', JList []), (''summary'', JStr [])]"

definition media_note :: "json list \<Rightarrow> string \<Rightarrow> string" where
  "media_note urls kind =
     (if urls \<noteq> [] then
        [nl, nl] @ ''[Note: this post contains '' @ str_of_nat (length urls) @ '' '' @ kind @ ''(s)]''
      else [])"

text \<open>From the emptiness check on: what \<open>analyze_post\<close> does once it has a text.\<close>

definition analyze_text :: "world \<Rightarrow> PostInput \<Rightarrow> string \<Rightarrow> ScrapeResult option \<Rightarrow> (exn, json) prog" where
  "analyze_text w post text_to_analyze scraped =
     (if strip text_to_analyze = [] then
        ret (refusal ''No text content could be extracted from this post.'')
      else
        bnd (extract_and_classify w text_to_analyze (post_url post)) (\<lambda>result.
          case scraped of
            None \<Rightarrow> ret result
          | Some r \<Rightarrow>
              (case result of
                 JDict kvs \<Rightarrow> ret (JDict (dict_set kvs ''scraped'' (scraped_json r)))
               | _ \<Rightarrow> raise TypeError)))"

definition analyze_post :: "world \<Rightarrow> PostInput \<Rightarrow> (exn, json) prog" where
  "analyze_post w post =
     (if post_url post \<noteq> [] then
        bnd (scrape w (post_url post)) (\<lambda>scraped.
          case error scraped of
            Some (c # cs) \<Rightarrow>
              ret (JDict [(''error'', JStr (c # cs)), (''scraped'', scraped_json scraped),
                          (''claims'', JList []), (''summary'', JStr [])])
          | _ \<Rightarrow>
              analyze_text w post
                (text_of scraped @ media_note (image_urls scraped) ''image'' @
                 media_note (video_urls scraped) ''video'')
                (Some scraped))
      else if post_text post \<noteq> [] then analyze_text w post (post_text post) None
      else ret (refusal ''Please provide either a URL or some post text.''))"


section \<open>Properties of computations and results\<close>

text \<open>Every value that the computation returns, from any events, satisfies \<open>P\<close>.\<close>

definition returns :: "('a \<Rightarrow> bool) \<Rightarrow> ('e, 'a) prog \<Rightarrow> bool" where
  "returns P m = (\<forall>tr x tr'. m tr = (Inr x, tr') \<longrightarrow> P x)"

text \<open>A result with an error has no text, no images and no videos.\<close>

definition exclusive :: "ScrapeResult \<Rightarrow> bool" where
  "exclusive r =
     (error r \<noteq> None \<longrightarrow> text_of r = [] \<and> image_urls r = [] \<and> video_urls r = [])"

definition content_free :: "extraction \<Rightarrow> bool" where
  "content_free x =
     (x_error x \<noteq> None \<longrightarrow> x_text x = None \<and> x_image_urls x = None \<and> x_video_urls x = None)"

definition images_distinct :: "extraction \<Rightarrow> bool" where
  "images_distinct x = (case x_image_urls x of None \<Rightarrow> True | Some imgs \<Rightarrow> distinct imgs)"

section \<open>Sample worlds\<close>

text \<open>
  A desktop machine on which every library is installed and every call succeeds with
  an empty answer; the other worlds differ from it in one or two answers.
\<close>

definition desktop :: world where
  "desktop =
     \<lparr>IS_SERVER = False, SESSIONS_DIR = ''sessions'', bad_host = (\<lambda>h. False),
      repr = (\<lambda>v. []), json_loads = (\<lambda>s. None),
      yt_dlp_installed = True, transcript_api_installed = True, playwright_installed = True,
      requests_get = (\<lambda>tr. Inr \<lparr>status_error = None, body = None\<rparr>),
      extract_info = (\<lambda>tr. Inr (JDict [])),
      get_transcript = (\<lambda>tr. Inr (JList [])),
      messages_create = (\<lambda>tr. Inr []),
      pw_command = (\<lambda>tr. None), pw_pages = (\<lambda>tr. True), pw_url = (\<lambda>tr. []),
      query_selector = (\<lambda>tr. Inr None), query_selector_all = (\<lambda>tr. Inr []),
      inner_text = (\<lambda>tr. Inr []), get_attribute = (\<lambda>tr. Inr None)\<rparr>"

definition server :: world where
  "server = desktop\<lparr>IS_SERVER := True\<rparr>"

text \<open>A desktop without a display: launching the browser fails.\<close>

definition no_display :: world where
  "no_display =
     desktop\<lparr>pw_command := (\<lambda>tr. case rev tr of
        PwLaunch d # before \<Rightarrow> Some (OtherException, ''Missing X server or $DISPLAY'')
      | _ \<Rightarrow> None)\<rparr>"

text \<open>A tweet that has been deleted: its container never appears.\<close>

definition tweet_missing :: world where
  "tweet_missing =
     desktop\<lparr>pw_command := (\<lambda>tr. case rev tr of
        PwWaitForSelector s # before \<Rightarrow> Some (PWTimeout, ''Timeout 15000ms exceeded.'')
      | _ \<Rightarrow> None)\<rparr>"

text \<open>A tweet whose page shows the same photograph in two \<open>img\<close> elements.\<close>

definition two_photos :: world where
  "two_photos =
     desktop\<lparr>query_selector_all := (\<lambda>tr. Inr [1, 2]),
             get_attribute := (\<lambda>tr. Inr (Some ''https://pbs.twimg.com/media/A?format=jpg&name=small''))\<rparr>"

text \<open>A Reddit post that links an image which is also its first preview image.\<close>

definition image_post :: json where
  "image_post =
     JDict [(''title'', JStr ''A photo''), (''selftext'', JStr []),
            (''url'', JStr ''https://i.redd.it/a.jpg''),
            (''preview'', JDict [(''images'', JList
               [JDict [(''source'', JDict [(''url'', JStr ''https://i.redd.it/a.jpg'')])]])]),
            (''author'', JStr ''someone'')]"

definition reddit_up :: world where
  "reddit_up =
     desktop\<lparr>requests_get := (\<lambda>tr. Inr \<lparr>status_error = None, body = Some
        (JList [JDict [(''data'', JDict [(''children'', JList
           [JDict [(''data'', image_post)]])])]])\<rparr>)\<rparr>"

text \<open>A model that answers every request with the same text.\<close>

definition replying :: "string \<Rightarrow> world" where
  "replying reply = desktop\<lparr>messages_create := (\<lambda>tr. Inr [reply])\<rparr>"

text \<open>A model that answers with one text, which \<open>json.loads\<close> reads as the given value.\<close>

definition understood :: "string \<Rightarrow> string \<Rightarrow> json \<Rightarrow> world" where
  "understood reply inner v =
     desktop\<lparr>messages_create := (\<lambda>tr. Inr [reply]),
             json_loads := (\<lambda>s. if s = inner then Some v else None)\<rparr>"

section \<open>Evaluation lemmas\<close>

lemma char_of_nat_bits:
  "char_of (n::nat) = Char (odd n) (odd (n div 2)) (odd (n div 4)) (odd (n div 8))
     (odd (n div 16)) (odd (n div 32)) (odd (n div 64)) (odd (n div 128))"
  by (simp add: char_of_def bit_iff_odd)

lemmas url_defs = detect_platform_def normalized_host_def netloc_def lower_def
  lower_char_def strip_scheme_def is_alpha_def scheme_char_def is_digit_def
  platform_of_host_def char_of_nat_bits

lemmas world_defs = desktop_def server_def no_display_def tweet_missing_def two_photos_def
  reddit_up_def replying_def understood_def image_post_def

lemmas string_defs = strip_def is_space_def rstrip_char_def rsplit1_head_def title_def
  upper_char_def is_cased_def path_join_def nl_def fence_def is_word_def large_name_def
  lower_def lower_char_def char_of_nat_bits

lemmas browser_defs = scrape_playwright_def with_playwright_def in_browser_def login_wall_def
  extract_content_def extract_twitter_def extract_instagram_def extract_facebook_def
  og_content_def og_image_urls_def og_video_urls_def attribute_or_empty_def select_def
  wait_for_timeout_def is_login_page_def key_or_def no_keys_def error_result_def

lemmas reddit_defs = scrape_reddit_def fetch_def find_post_def reddit_post_def direct_image_def
  reddit_video_def preview_src_def ext_here_def not_a_post_def error_result_def

lemmas prog_defs = ret_def raise_def bnd_def attempt_def call_def command_def observe_def
  uncaught_def pure_def ebind_def

lemma bnd_pure_Inr [simp]: "bnd (pure (Inr x)) k = k x"
  by (rule ext) (simp add: bnd_def pure_def)

lemma bnd_pure_Inl [simp]: "bnd (pure (Inl e)) k = raise e"
  by (rule ext) (simp add: bnd_def pure_def raise_def)

section \<open>Rules for what a computation returns\<close>

lemma returns_ret: "P x \<Longrightarrow> returns P (ret x)"
  by (simp add: returns_def ret_def)

lemma returns_raise: "returns P (raise e)"
  by (simp add: returns_def raise_def)

lemma returns_bnd2:
  assumes "returns Q m" and "\<And>x. Q x \<Longrightarrow> returns P (k x)"
  shows "returns P (bnd m k)"
  unfolding returns_def bnd_def
proof (intro allI impI)
  fix tr y tr'
  assume a: "(case m tr of (Inl e, tr') \<Rightarrow> (Inl e, tr') | (Inr x, tr') \<Rightarrow> k x tr') = (Inr y, tr')"
  obtain r t where mt: "m tr = (r, t)" by (cases "m tr")
  show "P y"
  proof (cases r)
    case (Inl e)
    with a mt show ?thesis by simp
  next
    case (Inr x)
    with mt assms(1) have "Q x" by (auto simp: returns_def)
    moreover from a mt Inr have "k x t = (Inr y, tr')" by simp
    ultimately show ?thesis using assms(2) by (auto simp: returns_def)
  qed
qed

lemma returns_any: "returns (\<lambda>x. True) m"
  by (simp add: returns_def)

lemma returns_bnd: "(\<And>x. returns P (k x)) \<Longrightarrow> returns P (bnd m k)"
  by (rule returns_bnd2[OF returns_any])

lemma returns_attempt:
  "returns P m \<Longrightarrow> returns (\<lambda>r. \<forall>x. r = Inr x \<longrightarrow> P x) (attempt m)"
  by (auto simp: returns_def attempt_def split: prod.splits)

lemma returns_uncaught: "returns P m \<Longrightarrow> returns P (uncaught m)"
  by (auto simp: returns_def uncaught_def split: prod.splits sum.splits)

lemma returns_pure: "(\<And>x. r = Inr x \<Longrightarrow> P x) \<Longrightarrow> returns P (pure r)"
  by (auto simp: returns_def pure_def)

lemma ebind_Inr: "ebind m f = Inr y \<longleftrightarrow> (\<exists>x. m = Inr x \<and> f x = Inr y)"
  by (cases m) (simp_all add: ebind_def)

section \<open>Platform detection: what holds\<close>

lemma of_char_lower_char:
  "(of_char (lower_char c) :: nat) =
     (if (65 \<le> (of_char c :: nat) \<and> (of_char c :: nat) \<le> 90) \<or>
         (192 \<le> (of_char c :: nat) \<and> (of_char c :: nat) \<le> 222 \<and> (of_char c :: nat) \<noteq> 215)
      then of_char c + 32 else of_char c)"
proof -
  have b: "(of_char c :: nat) < 256" by simp
  show ?thesis
    using b by (auto simp: lower_char_def Let_def)
qed

lemma lower_char_bracket:
  "lower_char c = CHR ''['' \<Longrightarrow> c = CHR ''[''"
  "lower_char c = CHR '']'' \<Longrightarrow> c = CHR '']''"
proof -
  assume "lower_char c = CHR ''[''"
  then have "(of_char (lower_char c) :: nat) = 91" by simp
  then have "(of_char c :: nat) = of_char CHR ''[''"
    by (simp add: of_char_lower_char split: if_splits)
  then show "c = CHR ''[''" by (simp only: of_char_eq_iff)
next
  assume "lower_char c = CHR '']''"
  then have "(of_char (lower_char c) :: nat) = 93" by simp
  then have "(of_char c :: nat) = of_char CHR '']''"
    by (simp add: of_char_lower_char split: if_splits)
  then show "c = CHR '']''" by (simp only: of_char_eq_iff)
qed

lemma set_lower_bracket:
  "CHR ''['' \<in> set (lower url) \<Longrightarrow> CHR ''['' \<in> set url"
  "CHR '']'' \<in> set (lower url) \<Longrightarrow> CHR '']'' \<in> set url"
  by (auto simp: lower_def dest!: lower_char_bracket[OF sym])

lemma set_strip_scheme: "set (strip_scheme url) \<subseteq> set url"
  by (auto simp: strip_scheme_def Let_def split: list.splits dest: in_set_dropD)

lemma netloc_without_brackets:
  assumes "CHR ''['' \<notin> set url" "CHR '']'' \<notin> set url"
  shows "\<exists>loc. netloc bh url = Inr loc"
proof -
  let ?u1 = "dropWhile (\<lambda>c. (of_char c :: nat) \<le> 32) url"
  let ?u2 = "filter (\<lambda>c. c \<notin> {CHR 0x09, CHR 0x0D, CHR 0x0A}) ?u1"
  let ?u3 = "strip_scheme ?u2"
  let ?loc = "takeWhile (\<lambda>c. c \<notin> set ''/?#'') (drop 2 ?u3)"
  have "set ?loc \<subseteq> set (drop 2 ?u3)" by (auto dest: set_takeWhileD)
  also have "\<dots> \<subseteq> set ?u3" by (rule set_drop_subset)
  also have "\<dots> \<subseteq> set ?u2" by (rule set_strip_scheme)
  also have "\<dots> \<subseteq> set ?u1" by auto
  also have "\<dots> \<subseteq> set url" by (auto dest: set_dropWhileD)
  finally have "set ?loc \<subseteq> set url" .
  with assms have "CHR ''['' \<notin> set ?loc" "CHR '']'' \<notin> set ?loc" by auto
  then show ?thesis
    by (simp add: netloc_def Let_def)
qed

lemma normalized_host_without_brackets:
  assumes "CHR ''['' \<notin> set url" "CHR '']'' \<notin> set url"
  shows "\<exists>h. normalized_host bh url = Inr h"
proof -
  from assms have "CHR ''['' \<notin> set (lower url)" "CHR '']'' \<notin> set (lower url)"
    by (auto dest: set_lower_bracket)
  then obtain loc where "netloc bh (lower url) = Inr loc"
    using netloc_without_brackets by blast
  then show ?thesis by (simp add: normalized_host_def)
qed

lemma platform_of_host_range:
  "platform_of_host h \<in>
     set [''twitter'', ''reddit'', ''youtube'', ''instagram'', ''facebook'', ''unknown'']"
  unfolding platform_of_host_def by (simp split: if_splits)

lemma platform_of_host_unmatched:
  "h \<notin> set [''twitter.com'', ''x.com'', ''mobile.twitter.com''] \<Longrightarrow>
   \<not> contains h ''reddit.com'' \<Longrightarrow>
   h \<notin> set [''youtube.com'', ''youtu.be'', ''m.youtube.com''] \<Longrightarrow>
   \<not> contains h ''instagram.com'' \<Longrightarrow>
   \<not> contains h ''facebook.com'' \<Longrightarrow> h \<noteq> ''fb.com'' \<Longrightarrow>
   platform_of_host h = ''unknown''"
  unfolding platform_of_host_def by (simp only: if_False if_True simp_thms)

lemma youtube_hosts:
  "h \<in> set [''youtube.com'', ''youtu.be'', ''m.youtube.com''] \<Longrightarrow>
   \<not> contains h ''instagram.com'' \<and> \<not> contains h ''facebook.com'' \<and> \<not> contains h ''reddit.com''"
  by auto

lemma twitter_hosts:
  "h \<in> set [''twitter.com'', ''x.com'', ''mobile.twitter.com''] \<Longrightarrow>
   \<not> contains h ''instagram.com'' \<and> \<not> contains h ''facebook.com'' \<and> \<not> contains h ''reddit.com''"
  by auto

lemma platform_of_host_reddit:
  "contains h ''reddit.com'' \<Longrightarrow> platform_of_host h = ''reddit''"
  using twitter_hosts[of h] unfolding platform_of_host_def by presburger

lemma platform_of_host_instagram:
  "contains h ''instagram.com'' \<Longrightarrow> \<not> contains h ''reddit.com'' \<Longrightarrow>
   platform_of_host h = ''instagram''"
  using youtube_hosts[of h] twitter_hosts[of h] unfolding platform_of_host_def by presburger

lemma platform_of_host_facebook:
  "contains h ''facebook.com'' \<Longrightarrow> \<not> contains h ''reddit.com'' \<Longrightarrow>
   \<not> contains h ''instagram.com'' \<Longrightarrow> platform_of_host h = ''facebook''"
  using youtube_hosts[of h] twitter_hosts[of h] unfolding platform_of_host_def by presburger

text \<open>
  What the detector does guarantee.  On every URL without a square bracket it returns,
  never raises; whenever the URL parses, the result is one of the six identifiers, and
  a host that matches no entry of the table gives \<open>unknown\<close>.
\<close>

theorem detect_platform_total_without_brackets:
  "(CHR ''['' \<notin> set url \<and> CHR '']'' \<notin> set url \<longrightarrow> (\<exists>h. normalized_host bh url = Inr h)) \<and>
   (\<forall>h. normalized_host bh url = Inr h \<longrightarrow>
      detect_platform bh url = Inr (platform_of_host h) \<and>
      platform_of_host h \<in>
        set [''twitter'', ''reddit'', ''youtube'', ''instagram'', ''facebook'', ''unknown''] \<and>
      (h \<notin> set [''twitter.com'', ''x.com'', ''mobile.twitter.com''] \<and>
       \<not> contains h ''reddit.com'' \<and>
       h \<notin> set [''youtube.com'', ''youtu.be'', ''m.youtube.com''] \<and>
       \<not> contains h ''instagram.com'' \<and> \<not> contains h ''facebook.com'' \<and> h \<noteq> ''fb.com''
       \<longrightarrow> detect_platform bh url = Inr ''unknown''))"
proof (intro conjI allI impI)
  assume "CHR ''['' \<notin> set url \<and> CHR '']'' \<notin> set url"
  then show "\<exists>h. normalized_host bh url = Inr h"
    using normalized_host_without_brackets by blast
next
  fix h assume h: "normalized_host bh url = Inr h"
  then show "detect_platform bh url = Inr (platform_of_host h)"
    by (simp add: detect_platform_def)
  show "platform_of_host h \<in>
     set [''twitter'', ''reddit'', ''youtube'', ''instagram'', ''facebook'', ''unknown'']"
    by (rule platform_of_host_range)
  assume "h \<notin> set [''twitter.com'', ''x.com'', ''mobile.twitter.com''] \<and>
       \<not> contains h ''reddit.com'' \<and>
       h \<notin> set [''youtube.com'', ''youtu.be'', ''m.youtube.com''] \<and>
       \<not> contains h ''instagram.com'' \<and> \<not> contains h ''facebook.com'' \<and> h \<noteq> ''fb.com''"
  then have "platform_of_host h = ''unknown''"
    using platform_of_host_unmatched by blast
  with h show "detect_platform bh url = Inr ''unknown''"
    by (simp add: detect_platform_def)
qed

text \<open>The theorem at a well-formed URL of an unsupported site.\<close>

theorem detect_platform_total_witness:
  "CHR ''['' \<notin> set ''https://example.com/post/1'' \<and>
   CHR '']'' \<notin> set ''https://example.com/post/1'' \<and>
   normalized_host (\<lambda>h. False) ''https://example.com/post/1'' = Inr ''example.com'' \<and>
   detect_platform (\<lambda>h. False) ''https://example.com/post/1'' = Inr ''unknown''"
proof -
  have n: "normalized_host (\<lambda>h. False) ''https://example.com/post/1'' = Inr ''example.com''"
    by (simp add: url_defs)
  have u: "''example.com'' \<notin> set [''twitter.com'', ''x.com'', ''mobile.twitter.com''] \<and>
       \<not> contains ''example.com'' ''reddit.com'' \<and>
       ''example.com'' \<notin> set [''youtube.com'', ''youtu.be'', ''m.youtube.com''] \<and>
       \<not> contains ''example.com'' ''instagram.com'' \<and>
       \<not> contains ''example.com'' ''facebook.com'' \<and> ''example.com'' \<noteq> ''fb.com''"
    by simp
  from detect_platform_total_without_brackets
    [of "''https://example.com/post/1''" "\<lambda>h. False"] n u
  have "detect_platform (\<lambda>h. False) ''https://example.com/post/1'' = Inr ''unknown''"
    by blast
  with n show ?thesis by simp
qed

text \<open>
  C5 fails on the code.  The claim is that \<open>detect_platform\<close> returns for every
  string, \<open>unknown\<close> when nothing matches.  A URL whose authority opens a square
  bracket and never closes it makes \<open>urlparse\<close> raise ValueError, and
  \<open>detect_platform\<close> has no handler: it raises where its docstring promises one of
  six identifiers.
\<close>

theorem detect_platform_raises_on_open_bracket:
  "detect_platform bh ''http://['' = Inl ValueError"
  by (simp add: url_defs)


section \<open>The dispatcher\<close>

lemma scrape_by_platform:
  assumes "detect_platform (bad_host w) url = Inr p"
  shows "scrape w url =
     (if p = ''unknown'' then
         ret (error_result ''unknown''
           ''Unrecognized URL. Supported: X/Twitter, Reddit, YouTube, Instagram, Facebook.'')
       else if p \<in> set [''twitter'', ''instagram'', ''facebook''] then scrape_playwright w url p
       else if p = ''reddit'' then scrape_reddit w url
       else if p = ''youtube'' then scrape_youtube w url
       else raise KeyError)"
  unfolding scrape_def by (simp only: assms bnd_pure_Inr)

lemma routed_reddit:
  assumes "normalized_host (bad_host w) url = Inr h" and "contains h ''reddit.com''"
  shows "detect_platform (bad_host w) url = Inr ''reddit'' \<and> scrape w url = scrape_reddit w url"
proof -
  from assms have d: "detect_platform (bad_host w) url = Inr ''reddit''"
    by (simp add: detect_platform_def platform_of_host_reddit)
  show ?thesis unfolding scrape_by_platform[OF d] using d by simp
qed

lemma routed_instagram:
  assumes "normalized_host (bad_host w) url = Inr h" and "contains h ''instagram.com''"
    and "\<not> contains h ''reddit.com''"
  shows "detect_platform (bad_host w) url = Inr ''instagram'' \<and>
         scrape w url = scrape_playwright w url ''instagram''"
proof -
  from assms have d: "detect_platform (bad_host w) url = Inr ''instagram''"
    by (simp add: detect_platform_def platform_of_host_instagram)
  show ?thesis unfolding scrape_by_platform[OF d] using d by simp
qed

lemma routed_facebook:
  assumes "normalized_host (bad_host w) url = Inr h" and "contains h ''facebook.com''"
    and "\<not> contains h ''reddit.com''" and "\<not> contains h ''instagram.com''"
  shows "detect_platform (bad_host w) url = Inr ''facebook'' \<and>
         scrape w url = scrape_playwright w url ''facebook''"
proof -
  from assms have d: "detect_platform (bad_host w) url = Inr ''facebook''"
    by (simp add: detect_platform_def platform_of_host_facebook)
  show ?thesis unfolding scrape_by_platform[OF d] using d by simp
qed

text \<open>
  C10, as the source has it.  Reddit, Instagram and Facebook are detected by substring,
  in that order: a host that contains \<open>reddit.com\<close> anywhere is Reddit and goes to
  \<open>scrape_reddit\<close>; a host that contains \<open>instagram.com\<close> is Instagram unless it also
  contains \<open>reddit.com\<close>; a host that contains \<open>facebook.com\<close> is Facebook unless it
  also contains one of the other two.  The last two go to \<open>scrape_playwright\<close> with
  their identifier.
\<close>

theorem substring_hosts_routed:
  "normalized_host (bad_host w) url = Inr h \<Longrightarrow>
   (contains h ''reddit.com'' \<longrightarrow>
      detect_platform (bad_host w) url = Inr ''reddit'' \<and> scrape w url = scrape_reddit w url) \<and>
   (contains h ''instagram.com'' \<and> \<not> contains h ''reddit.com'' \<longrightarrow>
      detect_platform (bad_host w) url = Inr ''instagram'' \<and>
      scrape w url = scrape_playwright w url ''instagram'') \<and>
   (contains h ''facebook.com'' \<and> \<not> contains h ''reddit.com'' \<and>
    \<not> contains h ''instagram.com'' \<longrightarrow>
      detect_platform (bad_host w) url = Inr ''facebook'' \<and>
      scrape w url = scrape_playwright w url ''facebook'')"
  using routed_reddit routed_instagram routed_facebook by blast

text \<open>The host of the claim's example, which only begins like Reddit's.\<close>

theorem substring_hosts_routed_witness:
  "normalized_host (bad_host desktop) ''https://reddit.com.attacker.example/r/x'' =
     Inr ''reddit.com.attacker.example'' \<and>
   contains ''reddit.com.attacker.example'' ''reddit.com'' \<and>
   detect_platform (bad_host desktop) ''https://reddit.com.attacker.example/r/x'' = Inr ''reddit'' \<and>
   scrape desktop ''https://reddit.com.attacker.example/r/x'' =
     scrape_reddit desktop ''https://reddit.com.attacker.example/r/x''"
proof -
  have n: "normalized_host (bad_host desktop) ''https://reddit.com.attacker.example/r/x'' =
     Inr ''reddit.com.attacker.example''"
    by (simp add: url_defs desktop_def)
  have c: "contains ''reddit.com.attacker.example'' ''reddit.com''" by simp
  from substring_hosts_routed[OF n] c n show ?thesis by blast
qed

text \<open>
  C10 as stated fails for Instagram (and in the same way for Facebook): a host that
  contains \<open>instagram.com\<close> and also \<open>reddit.com\<close> is taken for Reddit.
\<close>

theorem instagram_substring_taken_for_reddit:
  "normalized_host (\<lambda>h. False) ''https://reddit.com.instagram.com/p/1'' =
     Inr ''reddit.com.instagram.com'' \<and>
   contains ''reddit.com.instagram.com'' ''instagram.com'' \<and>
   detect_platform (\<lambda>h. False) ''https://reddit.com.instagram.com/p/1'' = Inr ''reddit''"
  by (simp add: url_defs)

text \<open>
  C6.  When the platform is \<open>unknown\<close>, \<open>scrape\<close> returns at once the error result
  that names the five supported platforms; text, author, images, videos and timestamp
  are empty, and the events are those before the call: nothing was requested.
\<close>

theorem unknown_host_refused:
  "detect_platform (bad_host w) url = Inr ''unknown'' \<Longrightarrow>
   scrape w url tr =
     (Inr \<lparr>platform = ''unknown'', text_of = [], author = JStr [], image_urls = [],
           video_urls = [], timestamp = JStr [],
           error = Some
             ''Unrecognized URL. Supported: X/Twitter, Reddit, YouTube, Instagram, Facebook.''\<rparr>,
      tr)"
proof -
  assume d: "detect_platform (bad_host w) url = Inr ''unknown''"
  show ?thesis unfolding scrape_by_platform[OF d] by (simp add: ret_def error_result_def)
qed

theorem unknown_host_refused_witness:
  "detect_platform (bad_host desktop) ''https://example.com/post/1'' = Inr ''unknown'' \<and>
   scrape desktop ''https://example.com/post/1'' [] =
     (Inr \<lparr>platform = ''unknown'', text_of = [], author = JStr [], image_urls = [],
           video_urls = [], timestamp = JStr [],
           error = Some
             ''Unrecognized URL. Supported: X/Twitter, Reddit, YouTube, Instagram, Facebook.''\<rparr>,
      [])"
proof -
  have d: "detect_platform (bad_host desktop) ''https://example.com/post/1'' = Inr ''unknown''"
    by (simp add: url_defs desktop_def)
  from unknown_host_refused[OF d, of "[]"] d show ?thesis by simp
qed

text \<open>
  C8.  On a server (\<open>IS_SERVER\<close>), a URL of Twitter, Instagram or Facebook gets the
  error result that asks for the text to be pasted by hand, from \<open>scrape\<close> and from
  \<open>scrape_playwright\<close> alike, and the events are unchanged: the browser is not started.
\<close>

theorem server_mode_refuses_browser:
  "IS_SERVER w \<Longrightarrow> detect_platform (bad_host w) url = Inr p \<Longrightarrow>
   p \<in> set [''twitter'', ''instagram'', ''facebook''] \<Longrightarrow>
   scrape w url tr =
     (Inr \<lparr>platform = p, text_of = [], author = JStr [], image_urls = [],
           video_urls = [], timestamp = JStr [],
           error = Some (''Scraping '' @ title p @
             '' requires a logged-in browser session, which only works '' @
             ''in the desktop version of this tool. Please copy and paste the post text manually.'')\<rparr>,
      tr) \<and>
   scrape_playwright w url p tr = scrape w url tr"
proof -
  assume s: "IS_SERVER w" and d: "detect_platform (bad_host w) url = Inr p"
    and b: "p \<in> set [''twitter'', ''instagram'', ''facebook'']"
  from b have u: "p \<noteq> ''unknown''" by auto
  from u b have r: "scrape w url = scrape_playwright w url p"
    unfolding scrape_by_platform[OF d] by (simp only: if_P if_not_P if_False if_True simp_thms)
  from s show ?thesis
    unfolding r by (simp add: scrape_playwright_def ret_def error_result_def)
qed

theorem server_mode_refuses_browser_witness:
  "IS_SERVER server \<and>
   detect_platform (bad_host server) ''https://www.instagram.com/p/abc'' = Inr ''instagram'' \<and>
   scrape server ''https://www.instagram.com/p/abc'' [] =
     (Inr \<lparr>platform = ''instagram'', text_of = [], author = JStr [], image_urls = [],
           video_urls = [], timestamp = JStr [],
           error = Some (''Scraping Instagram requires a logged-in browser session, '' @
             ''which only works in the desktop version of this tool. '' @
             ''Please copy and paste the post text manually.'')\<rparr>,
      [])"
proof -
  have s: "IS_SERVER server" by (simp add: server_def desktop_def)
  have d: "detect_platform (bad_host server) ''https://www.instagram.com/p/abc'' = Inr ''instagram''"
    by (simp add: url_defs server_def desktop_def)
  have b: "''instagram'' \<in> set [''twitter'', ''instagram'', ''facebook'']" by simp
  have t: "title ''instagram'' = ''Instagram''" by (simp add: string_defs)
  from server_mode_refuses_browser[OF s d b, of "[]"] s d show ?thesis
    by (simp add: t)
qed

section \<open>Errors and content\<close>

lemma reddit_post_fields:
  assumes "reddit_post rp post = Inr r"
  shows "error r = None"
  using assms by (auto simp: reddit_post_def ebind_Inr)

lemma exclusive_error_result: "exclusive (error_result p m)"
  by (simp add: exclusive_def error_result_def)

lemma scrape_reddit_exclusive: "returns exclusive (scrape_reddit w url)"
  unfolding scrape_reddit_def Let_def
  apply (rule returns_bnd)
  apply (auto split: sum.splits prod.splits lib_class.splits exn.splits
      intro!: returns_ret returns_raise returns_pure exclusive_error_result
      dest!: reddit_post_fields simp: exclusive_def)
  done

lemma scrape_youtube_exclusive: "returns exclusive (scrape_youtube w url)"
  unfolding scrape_youtube_def
  apply (auto split: sum.splits prod.splits
      intro!: returns_ret returns_bnd exclusive_error_result simp: exclusive_def)
  done


lemma login_wall_returns:
  assumes "\<And>msg. A (error_result p msg)"
  shows "returns (\<lambda>g. \<forall>r. g = Some r \<longrightarrow> A r) (login_wall w url p)"
  unfolding login_wall_def
  by (auto intro!: returns_bnd returns_ret assms split: sum.splits)

lemma in_browser_returns:
  assumes A: "\<And>msg. A (error_result p msg)"
    and B: "returns B (extract_content w url p)"
    and F: "\<And>msg. B (no_keys\<lparr>x_error := Some msg\<rparr>)"
  shows "returns (\<lambda>out. case out of Inl r \<Rightarrow> A r | Inr x \<Rightarrow> B x) (in_browser w url p)"
  unfolding in_browser_def
  apply (intro returns_bnd)
  apply (split sum.split, intro conjI allI impI)
   apply (split prod.split, intro conjI allI impI)
   apply (intro returns_bnd returns_ret)
   apply (simp add: A)
  apply (rule returns_bnd)
  apply (rule returns_bnd2[OF login_wall_returns[where A = A, OF A]])
  apply (split option.split, intro conjI allI impI)
   apply (rule returns_bnd2[OF returns_attempt[OF B]])
   apply (intro returns_bnd returns_ret)
   apply (auto split: sum.splits simp: F)[1]
  apply (rule returns_ret)
  apply simp
  done

lemma with_playwright_returns:
  "returns P block \<Longrightarrow> returns P (with_playwright w block)"
  unfolding with_playwright_def
  apply (rule returns_bnd)
  apply (rule returns_bnd2[OF returns_attempt])
   apply assumption
  apply (rule returns_bnd)
  apply (auto split: sum.splits intro!: returns_ret returns_raise)
  done

lemma scrape_playwright_returns:
  assumes A: "\<And>msg. A (error_result p msg)"
    and B: "returns B (extract_content w url p)"
    and F: "\<And>msg. B (no_keys\<lparr>x_error := Some msg\<rparr>)"
    and R: "\<And>x. B x \<Longrightarrow> A \<lparr>platform = p,
                   text_of = key_or (x_text x) [],
                   author = JStr (key_or (x_author x) []),
                   image_urls = map JStr (key_or (x_image_urls x) []),
                   video_urls = map JStr (key_or (x_video_urls x) []),
                   timestamp = JStr [],
                   error = x_error x\<rparr>"
  shows "returns A (scrape_playwright w url p)"
  unfolding scrape_playwright_def
  apply (simp add: returns_ret A)
  apply (intro impI)
  apply (rule returns_bnd2[OF returns_uncaught[OF with_playwright_returns[OF in_browser_returns[where A = A and B = B, OF A B F]]]])
  apply (auto split: sum.splits intro!: returns_ret R)
  done

lemma extract_twitter_content_free: "returns content_free (extract_twitter w url)"
  unfolding extract_twitter_def
  apply (intro returns_bnd)
  apply (auto split: sum.splits prod.splits lib_class.splits
      intro!: returns_ret returns_raise returns_bnd simp: content_free_def no_keys_def)
  done

lemma extract_instagram_content_free: "returns content_free (extract_instagram w url)"
  unfolding extract_instagram_def
  by (intro returns_bnd returns_ret) (simp add: content_free_def)

lemma extract_facebook_content_free: "returns content_free (extract_facebook w url)"
  unfolding extract_facebook_def
  by (intro returns_bnd returns_ret) (simp add: content_free_def)

lemma extract_content_free: "returns content_free (extract_content w url p)"
  unfolding extract_content_def
  by (auto intro: extract_twitter_content_free extract_instagram_content_free
      extract_facebook_content_free returns_ret simp: content_free_def no_keys_def)

lemma scrape_playwright_exclusive: "returns exclusive (scrape_playwright w url p)"
  apply (rule scrape_playwright_returns[where B = content_free])
     apply (rule exclusive_error_result)
    apply (rule extract_content_free)
   apply (simp add: content_free_def no_keys_def)
  apply (simp add: content_free_def exclusive_def key_or_def)
  done

lemma scrape_exclusive: "returns exclusive (scrape w url)"
  unfolding scrape_def
proof (rule returns_bnd)
  fix p
  show "returns exclusive
     (if p = ''unknown'' then
        ret (error_result ''unknown''
          ''Unrecognized URL. Supported: X/Twitter, Reddit, YouTube, Instagram, Facebook.'')
      else if p \<in> set [''twitter'', ''instagram'', ''facebook''] then scrape_playwright w url p
      else if p = ''reddit'' then scrape_reddit w url
      else if p = ''youtube'' then scrape_youtube w url
      else raise KeyError)"
    by (simp only: returns_ret returns_raise exclusive_error_result
        scrape_playwright_exclusive scrape_reddit_exclusive scrape_youtube_exclusive
        if_cancel split: if_split) simp
qed

text \<open>
  C1.  Whatever \<open>scrape\<close> returns, from any retriever and in any world: when the error
  field is set, the text is empty and so are the lists of images and of videos.
\<close>

theorem scrape_error_excludes_content:
  assumes "scrape w url tr = (Inr r, tr')" and "error r \<noteq> None"
  shows "text_of r = [] \<and> image_urls r = [] \<and> video_urls r = []"
  using scrape_exclusive[of w url] assms
  unfolding returns_def exclusive_def by blast

text \<open>A deleted tweet: the extraction reports the error and nothing else.\<close>

theorem scrape_error_excludes_content_witness:
  "fst (scrape tweet_missing ''https://x.com/user/status/1'' []) =
     Inr \<lparr>platform = ''twitter'', text_of = [], author = JStr [], image_urls = [],
          video_urls = [], timestamp = JStr [],
          error = Some ''Tweet content not found. The post may be deleted, private, or require login.''\<rparr> \<and>
   error (projr (fst (scrape tweet_missing ''https://x.com/user/status/1'' []))) \<noteq> None \<and>
   text_of (projr (fst (scrape tweet_missing ''https://x.com/user/status/1'' []))) = [] \<and>
   image_urls (projr (fst (scrape tweet_missing ''https://x.com/user/status/1'' []))) = [] \<and>
   video_urls (projr (fst (scrape tweet_missing ''https://x.com/user/status/1'' []))) = []"
proof -
  let ?run = "scrape tweet_missing ''https://x.com/user/status/1'' []"
  have f: "fst ?run =
     Inr \<lparr>platform = ''twitter'', text_of = [], author = JStr [], image_urls = [],
          video_urls = [], timestamp = JStr [],
          error = Some ''Tweet content not found. The post may be deleted, private, or require login.''\<rparr>"
    by (simp add: scrape_def url_defs world_defs browser_defs prog_defs string_defs)
  then have r: "?run = (Inr (projr (fst ?run)), snd ?run)"
    by (simp add: prod_eq_iff)
  have e: "error (projr (fst ?run)) \<noteq> None" by (simp add: f)
  from scrape_error_excludes_content[OF r e] f e show ?thesis by simp
qed

text \<open>
  C2 fails on the code.  \<open>scrape_playwright\<close> starts Playwright and launches the browser
  outside any \<open>try\<close>: on a desktop without a display the launch fails, the \<open>with\<close>
  block is left, and the library's error reaches the caller of \<open>scrape\<close>.
\<close>

theorem scrape_raises_when_browser_cannot_start:
  "scrape no_display ''https://twitter.com/user/status/1'' [] =
   (Inl (Library OtherException ''Missing X server or $DISPLAY''),
    [PwStart, PwLaunch ''sessions/twitter'', PwStop])"
  by (simp add: scrape_def url_defs world_defs browser_defs prog_defs string_defs)

section \<open>Duplicate images\<close>

lemma add_previews_distinct:
  "add_previews imgs urls = Inr out \<Longrightarrow> distinct urls \<Longrightarrow> distinct out"
  by (induction imgs arbitrary: urls) (auto simp: ebind_Inr split: if_splits)

lemma add_previews_grows:
  "add_previews imgs urls = Inr out \<Longrightarrow> set urls \<subseteq> set out"
proof (induction imgs arbitrary: urls)
  case Nil
  then show ?case by simp
next
  case (Cons img imgs)
  from Cons.prems obtain src where
    a: "add_previews imgs (if src \<noteq> [] \<and> src \<notin> set urls then urls @ [src] else urls) = Inr out"
    by (auto simp: ebind_Inr)
  from Cons.IH[OF a] show ?case by (auto split: if_splits)
qed

lemma direct_image_distinct: "direct_image v = Inr d \<Longrightarrow> distinct d"
  by (auto simp: direct_image_def split: json.splits if_splits)

lemma distinct_map_JStr: "distinct (map JStr xs) = distinct xs"
  by (simp add: distinct_map inj_on_def)

lemma reddit_post_distinct:
  assumes "reddit_post rp post = Inr r"
  shows "distinct (image_urls r)"
  using assms
  by (auto simp: reddit_post_def ebind_Inr distinct_map_JStr
      dest!: direct_image_distinct dest: add_previews_distinct)

lemma count_list_distinct:
  "distinct xs \<Longrightarrow> x \<in> set xs \<Longrightarrow> count_list xs x = 1"
  by (induction xs) auto

lemma count_list_map_JStr: "count_list (map JStr xs) (JStr u) = count_list xs u"
  by (induction xs) auto

lemma reddit_post_once:
  assumes r: "reddit_post rp post = Inr r"
    and u: "py_get post ''url'' (JStr []) = Inr (JStr u)"
    and pv: "py_get post ''preview'' (JDict []) = Inr pv"
    and im: "py_get pv ''images'' (JList []) = Inr (JList (img # rest))"
    and src: "preview_src img = Inr u"
    and ne: "u \<noteq> []"
  shows "count_list (image_urls r) (JStr u) = 1"
proof -
  from r u pv im obtain direct out where
    d: "direct_image (JStr u) = Inr direct"
    and a: "add_previews (take 2 (img # rest)) direct = Inr out"
    and i: "image_urls r = map JStr out"
    by (auto simp: reddit_post_def ebind_Inr)
  let ?urls = "if u \<noteq> [] \<and> u \<notin> set direct then direct @ [u] else direct"
  have t: "take 2 (img # rest) = img # take 1 rest" by (simp add: numeral_2_eq_2)
  from a src have a': "add_previews (take 1 rest) ?urls = Inr out"
    by (simp add: t ebind_def)
  from ne have "u \<in> set ?urls" by simp
  with add_previews_grows[OF a'] have "u \<in> set out" by blast
  moreover from d have "distinct direct" by (rule direct_image_distinct)
  then have "distinct out" using add_previews_distinct[OF a] by simp
  ultimately have "count_list out u = 1" by (simp add: count_list_distinct)
  with i show ?thesis by (simp add: count_list_map_JStr)
qed

lemma scrape_reddit_distinct: "returns (\<lambda>r. distinct (image_urls r)) (scrape_reddit w url)"
  unfolding scrape_reddit_def Let_def
  apply (rule returns_bnd)
  apply (auto split: sum.splits prod.splits lib_class.splits exn.splits
      intro!: returns_ret returns_raise returns_pure
      dest!: reddit_post_distinct simp: error_result_def)
  done

lemma scrape_youtube_distinct: "returns (\<lambda>r. distinct (image_urls r)) (scrape_youtube w url)"
  unfolding scrape_youtube_def
  apply (auto split: sum.splits prod.splits
      intro!: returns_ret returns_bnd simp: error_result_def)
  done

lemma og_image_urls_short: "returns (\<lambda>imgs. length imgs \<le> 1) (og_image_urls w og)"
  unfolding og_image_urls_def attribute_or_empty_def
  by (auto split: option.splits intro!: returns_bnd returns_ret)

lemma short_distinct: "length xs \<le> 1 \<Longrightarrow> distinct xs"
  by (cases xs) auto

lemma extract_instagram_distinct: "returns images_distinct (extract_instagram w url)"
  unfolding extract_instagram_def
  apply (rule returns_bnd, rule returns_bnd, rule returns_bnd, rule returns_bnd, rule returns_bnd)
  apply (rule returns_bnd2[OF og_image_urls_short])
  apply (rule returns_bnd)
  apply (rule returns_ret)
  apply (simp add: images_distinct_def short_distinct)
  done

lemma extract_facebook_distinct: "returns images_distinct (extract_facebook w url)"
  unfolding extract_facebook_def
  apply (rule returns_bnd, rule returns_bnd, rule returns_bnd, rule returns_bnd, rule returns_bnd,
      rule returns_bnd, rule returns_bnd)
  apply (rule returns_bnd2[OF og_image_urls_short])
  apply (rule returns_bnd)
  apply (rule returns_ret)
  apply (simp add: images_distinct_def short_distinct)
  done

lemma extract_content_distinct:
  "p \<noteq> ''twitter'' \<Longrightarrow> returns images_distinct (extract_content w url p)"
  unfolding extract_content_def
  by (auto intro: extract_instagram_distinct extract_facebook_distinct returns_ret
      simp: images_distinct_def no_keys_def)

lemma scrape_playwright_distinct:
  "p \<noteq> ''twitter'' \<Longrightarrow> returns (\<lambda>r. distinct (image_urls r)) (scrape_playwright w url p)"
  apply (rule scrape_playwright_returns[where B = images_distinct])
     apply (simp add: error_result_def)
    apply (erule extract_content_distinct)
   apply (simp add: images_distinct_def no_keys_def)
  apply (simp add: images_distinct_def key_or_def distinct_map_JStr split: option.splits)
  done

lemma scrape_distinct:
  assumes d: "detect_platform (bad_host w) url = Inr p" and nt: "p \<noteq> ''twitter''"
  shows "returns (\<lambda>r. distinct (image_urls r)) (scrape w url)"
proof (cases "p = ''unknown''")
  case True
  then have "scrape w url = ret (error_result ''unknown''
           ''Unrecognized URL. Supported: X/Twitter, Reddit, YouTube, Instagram, Facebook.'')"
    unfolding scrape_by_platform[OF d] by (rule if_P)
  then show ?thesis by (simp add: returns_ret error_result_def)
next
  case u: False
  show ?thesis
  proof (cases "p \<in> set [''twitter'', ''instagram'', ''facebook'']")
    case True
    with u have "scrape w url = scrape_playwright w url p"
      unfolding scrape_by_platform[OF d] by (simp only: if_P if_not_P if_False if_True simp_thms)
    then show ?thesis by (simp only: scrape_playwright_distinct[OF nt])
  next
    case b: False
    show ?thesis
    proof (cases "p = ''reddit''")
      case True
      with u b have "scrape w url = scrape_reddit w url"
        unfolding scrape_by_platform[OF d] by (simp only: if_P if_not_P if_False if_True simp_thms)
      then show ?thesis by (simp only: scrape_reddit_distinct)
    next
      case r: False
      show ?thesis
      proof (cases "p = ''youtube''")
        case True
        with u b r have "scrape w url = scrape_youtube w url"
          unfolding scrape_by_platform[OF d]
          by (simp only: if_P if_not_P if_False if_True simp_thms)
        then show ?thesis by (simp only: scrape_youtube_distinct)
      next
        case False
        with u b r have "scrape w url = raise KeyError"
          unfolding scrape_by_platform[OF d]
          by (simp only: if_P if_not_P if_False if_True simp_thms)
        then show ?thesis by (simp only: returns_raise)
      qed
    qed
  qed
qed

text \<open>
  C4, as the source has it.  A result of the Reddit, YouTube, Instagram or Facebook
  retriever (any platform but Twitter) has no image URL twice.  For Reddit in
  particular: when the post's own link and the link of its first preview image are
  the same non-empty URL, that URL is in the list exactly once.
\<close>

theorem image_urls_distinct_except_twitter:
  "(\<forall>p r tr'. detect_platform (bad_host w) url = Inr p \<and> p \<noteq> ''twitter'' \<and>
       scrape w url tr = (Inr r, tr') \<longrightarrow> distinct (image_urls r)) \<and>
   (\<forall>post r u pv img rest.
       reddit_post rp post = Inr r \<and> py_get post ''url'' (JStr []) = Inr (JStr u) \<and>
       py_get post ''preview'' (JDict []) = Inr pv \<and>
       py_get pv ''images'' (JList []) = Inr (JList (img # rest)) \<and>
       preview_src img = Inr u \<and> u \<noteq> [] \<longrightarrow>
       count_list (image_urls r) (JStr u) = 1)"
proof (intro conjI allI impI)
  fix p r tr'
  assume a: "detect_platform (bad_host w) url = Inr p \<and> p \<noteq> ''twitter'' \<and>
       scrape w url tr = (Inr r, tr')"
  then have "returns (\<lambda>r. distinct (image_urls r)) (scrape w url)"
    using scrape_distinct by blast
  with a show "distinct (image_urls r)" unfolding returns_def by blast
next
  fix post r u pv img rest
  assume "reddit_post rp post = Inr r \<and> py_get post ''url'' (JStr []) = Inr (JStr u) \<and>
       py_get post ''preview'' (JDict []) = Inr pv \<and>
       py_get pv ''images'' (JList []) = Inr (JList (img # rest)) \<and>
       preview_src img = Inr u \<and> u \<noteq> []"
  then show "count_list (image_urls r) (JStr u) = 1"
    using reddit_post_once by blast
qed

text \<open>A Reddit post whose link is also its first preview image.\<close>

theorem image_urls_distinct_witness:
  "detect_platform (bad_host reddit_up)
     ''https://www.reddit.com/r/pics/comments/abc/a_photo/?utm=1'' = Inr ''reddit'' \<and>
   scrape reddit_up ''https://www.reddit.com/r/pics/comments/abc/a_photo/?utm=1'' [] =
     (Inr \<lparr>platform = ''reddit'', text_of = ''A photo'', author = JStr ''someone'',
           image_urls = [JStr ''https://i.redd.it/a.jpg''], video_urls = [],
           timestamp = JStr [], error = None\<rparr>,
      [HttpGet ''https://www.reddit.com/r/pics/comments/abc/a_photo.json'']) \<and>
   distinct [JStr ''https://i.redd.it/a.jpg''] \<and>
   count_list [JStr ''https://i.redd.it/a.jpg''] (JStr ''https://i.redd.it/a.jpg'') = 1"
proof -
  let ?url = "''https://www.reddit.com/r/pics/comments/abc/a_photo/?utm=1''"
  let ?r = "\<lparr>platform = ''reddit'', text_of = ''A photo'', author = JStr ''someone'',
           image_urls = [JStr ''https://i.redd.it/a.jpg''], video_urls = [],
           timestamp = JStr [], error = None\<rparr>"
  have d: "detect_platform (bad_host reddit_up) ?url = Inr ''reddit''"
    by (simp add: url_defs world_defs)
  have run: "scrape reddit_up ?url [] =
      (Inr ?r, [HttpGet ''https://www.reddit.com/r/pics/comments/abc/a_photo.json''])"
    by (simp add: scrape_def url_defs world_defs reddit_defs prog_defs string_defs)
  have post: "reddit_post (\<lambda>v. []) image_post = Inr ?r"
    by (simp add: world_defs reddit_defs prog_defs string_defs)
  have u: "py_get image_post ''url'' (JStr []) = Inr (JStr ''https://i.redd.it/a.jpg'')"
    by (simp add: image_post_def)
  have pv: "py_get image_post ''preview'' (JDict []) =
      Inr (JDict [(''images'', JList
               [JDict [(''source'', JDict [(''url'', JStr ''https://i.redd.it/a.jpg'')])]])])"
    by (simp add: image_post_def)
  have im: "py_get (JDict [(''images'', JList
               [JDict [(''source'', JDict [(''url'', JStr ''https://i.redd.it/a.jpg'')])]])])
             ''images'' (JList []) =
      Inr (JList (JDict [(''source'', JDict [(''url'', JStr ''https://i.redd.it/a.jpg'')])] # []))"
    by simp
  have src: "preview_src (JDict [(''source'', JDict [(''url'', JStr ''https://i.redd.it/a.jpg'')])]) =
      Inr ''https://i.redd.it/a.jpg''"
    by (simp add: preview_src_def ebind_def)
  note inst = image_urls_distinct_except_twitter[of reddit_up ?url "[]" "\<lambda>v. []"]
  from inst d run have "distinct (image_urls ?r)" by blast
  moreover from inst post u pv im src
  have "count_list (image_urls ?r) (JStr ''https://i.redd.it/a.jpg'') = 1"
    by blast
  ultimately show ?thesis using d run by simp
qed

text \<open>
  C4 as stated fails for Twitter: \<open>_extract_twitter\<close> appends the source of every
  matching \<open>img\<close> element and never looks at what it has collected.
\<close>

theorem twitter_duplicate_photos:
  "fst (scrape two_photos ''https://x.com/user/status/1'' []) =
     Inr \<lparr>platform = ''twitter'', text_of = [], author = JStr [],
          image_urls = [JStr ''https://pbs.twimg.com/media/A?format=jpg&name=large'',
                        JStr ''https://pbs.twimg.com/media/A?format=jpg&name=large''],
          video_urls = [], timestamp = JStr [], error = None\<rparr>"
  by (simp add: scrape_def url_defs world_defs browser_defs prog_defs string_defs)

section \<open>Parsing the reply\<close>

lemma startswith_append [simp]: "startswith (p @ s) p"
  by (induction p) auto

lemma after_first_sep: "sep \<noteq> [] \<Longrightarrow> after_first (sep @ ys) sep = Some ys"
  by (cases sep) auto

lemma after_first_char:
  "c \<notin> set pre \<Longrightarrow> after_first (pre @ c # rest) [c] = Some rest"
  by (induction pre) auto

lemma rsplit1_head_last: "sep \<noteq> [] \<Longrightarrow> rsplit1_head (x @ sep) sep = x"
  by (simp add: rsplit1_head_def after_first_sep)

lemma fence_no_nl: "nl \<notin> set fence"
  by (simp add: fence_def nl_def)

lemma strip_fence_lines:
  assumes "startswith raw fence" and "after_first raw [nl] = Some rest"
  shows "strip_fence raw = Inr (strip (rsplit1_head rest fence))"
  using assms by (simp add: strip_fence_def)

lemma strip_fence_block:
  assumes "nl \<notin> set lang"
  shows "strip_fence (fence @ lang @ [nl] @ inner @ fence) = Inr (strip inner)"
proof -
  have "after_first ((fence @ lang) @ nl # (inner @ fence)) [nl] = Some (inner @ fence)"
    using assms fence_no_nl by (intro after_first_char) simp
  moreover have "rsplit1_head (inner @ fence) fence = inner"
    by (rule rsplit1_head_last) (simp add: fence_def)
  ultimately show ?thesis by (simp add: strip_fence_def)
qed

lemma extract_and_classify_reply:
  assumes "messages_create w (tr @ [MessagesCreate (user_message text url)]) = Inr (first # others)"
  shows "extract_and_classify w text url tr =
     (parse_reply (json_loads w) (strip first), tr @ [MessagesCreate (user_message text url)])"
  using assms by (simp add: extract_and_classify_def prog_defs)

text \<open>
  What the stripping does when there is a line break.  When the stripped reply begins
  with the fence and has a line break, its first line is dropped, then everything from
  the last fence of the remainder on, then the surrounding whitespace, and what is left
  goes to \<open>json.loads\<close>.  So a reply made of an opening fence line, a text and a
  closing fence is parsed as that text.
\<close>

theorem fenced_reply_parsed:
  "(\<forall>first others lang inner.
      messages_create w (tr @ [MessagesCreate (user_message text url)]) = Inr (first # others) \<and>
      strip first = fence @ lang @ [nl] @ inner @ fence \<and> nl \<notin> set lang \<longrightarrow>
      extract_and_classify w text url tr =
        (Inr (case json_loads w (strip inner) of
                Some result \<Rightarrow> result
              | None \<Rightarrow> JDict [(''claims'', JList []), (''summary'', JStr (strip inner)),
                               (''error'', JStr unparsed)]),
         tr @ [MessagesCreate (user_message text url)])) \<and>
   (\<forall>first others rest.
      messages_create w (tr @ [MessagesCreate (user_message text url)]) = Inr (first # others) \<and>
      startswith (strip first) fence \<and> after_first (strip first) [nl] = Some rest \<longrightarrow>
      extract_and_classify w text url tr =
        (Inr (case json_loads w (strip (rsplit1_head rest fence)) of
                Some result \<Rightarrow> result
              | None \<Rightarrow> JDict [(''claims'', JList []),
                               (''summary'', JStr (strip (rsplit1_head rest fence))),
                               (''error'', JStr unparsed)]),
         tr @ [MessagesCreate (user_message text url)]))"
proof (intro conjI allI impI)
  fix first others lang inner
  assume a: "messages_create w (tr @ [MessagesCreate (user_message text url)]) = Inr (first # others) \<and>
      strip first = fence @ lang @ [nl] @ inner @ fence \<and> nl \<notin> set lang"
  then have "strip_fence (strip first) = Inr (strip inner)"
    using strip_fence_block[of lang inner] by simp
  then show "extract_and_classify w text url tr =
        (Inr (case json_loads w (strip inner) of
                Some result \<Rightarrow> result
              | None \<Rightarrow> JDict [(''claims'', JList []), (''summary'', JStr (strip inner)),
                               (''error'', JStr unparsed)]),
         tr @ [MessagesCreate (user_message text url)])"
    using a by (simp add: extract_and_classify_reply parse_reply_def ebind_def split: option.splits)
next
  fix first others rest
  assume a: "messages_create w (tr @ [MessagesCreate (user_message text url)]) = Inr (first # others) \<and>
      startswith (strip first) fence \<and> after_first (strip first) [nl] = Some rest"
  then have "strip_fence (strip first) = Inr (strip (rsplit1_head rest fence))"
    using strip_fence_lines by blast
  then show "extract_and_classify w text url tr =
        (Inr (case json_loads w (strip (rsplit1_head rest fence)) of
                Some result \<Rightarrow> result
              | None \<Rightarrow> JDict [(''claims'', JList []),
                               (''summary'', JStr (strip (rsplit1_head rest fence))),
                               (''error'', JStr unparsed)]),
         tr @ [MessagesCreate (user_message text url)])"
    using a by (simp add: extract_and_classify_reply parse_reply_def ebind_def split: option.splits)
qed

text \<open>The reply of the example, with a \<open>json.loads\<close> that reads the enclosed object.\<close>

theorem fenced_reply_parsed_witness:
  \<open>extract_and_classify
     (understood (fence @ ''json'' @ [nl] @ ''{"claims":[],"summary":"ok"}'' @ [nl] @ fence)
        ''{"claims":[],"summary":"ok"}''
        (JDict [(''claims'', JList []), (''summary'', JStr ''ok'')]))
     ''some post'' [] [] =
   (Inr (JDict [(''claims'', JList []), (''summary'', JStr ''ok'')]),
    [MessagesCreate (user_message ''some post'' [])])\<close>
proof -
  let ?reply = \<open>fence @ ''json'' @ [nl] @ ''{"claims":[],"summary":"ok"}'' @ [nl] @ fence\<close>
  let ?v = "JDict [(''claims'', JList []), (''summary'', JStr ''ok'')]"
  let ?w = \<open>understood ?reply ''{"claims":[],"summary":"ok"}'' ?v\<close>
  have m: "messages_create ?w ([] @ [MessagesCreate (user_message ''some post'' [])]) =
      Inr (?reply # [])"
    by (simp add: understood_def desktop_def)
  have s: \<open>strip ?reply = fence @ ''json'' @ [nl] @ (''{"claims":[],"summary":"ok"}'' @ [nl]) @ fence\<close>
    by (simp add: string_defs)
  have l: "nl \<notin> set ''json''" by (simp add: nl_def)
  have i: \<open>strip (''{"claims":[],"summary":"ok"}'' @ [nl]) = ''{"claims":[],"summary":"ok"}''\<close>
    by (simp add: string_defs)
  have j: \<open>json_loads ?w ''{"claims":[],"summary":"ok"}'' = Some ?v\<close>
    by (simp add: understood_def desktop_def)
  from fenced_reply_parsed[of ?w "[]" "''some post''" "[]"] m s l
  have \<open>extract_and_classify ?w ''some post'' [] [] =
        (Inr (case json_loads ?w (strip (''{"claims":[],"summary":"ok"}'' @ [nl])) of
                Some result \<Rightarrow> result
              | None \<Rightarrow> JDict [(''claims'', JList []),
                     (''summary'', JStr (strip (''{"claims":[],"summary":"ok"}'' @ [nl]))),
                               (''error'', JStr unparsed)]),
         [] @ [MessagesCreate (user_message ''some post'' [])])\<close>
    by blast
  then show ?thesis by (simp only: i j option.case append_Nil)
qed

text \<open>
  C7 fails on the code.  The claim is that every reply that begins with the fence gets
  its fence removed and is then parsed.  A fenced reply on a single line, the shape the
  source's own comment gives, has no line break: \<open>split("\n", 1)[1]\<close> raises
  IndexError, the reply is never parsed, and the error leaves \<open>extract_and_classify\<close>.
\<close>

theorem one_line_fence_raises:
  \<open>extract_and_classify (replying (fence @ ''{"claims":[],"summary":"ok"}'' @ fence))
     ''some post'' [] [] =
   (Inl IndexError, [MessagesCreate (user_message ''some post'' [])])\<close>
  by (simp add: extract_and_classify_def parse_reply_def strip_fence_def world_defs prog_defs
      string_defs)

text \<open>
  C3 fails on the code.  The \<open>try\<close> block catches JSONDecodeError only, so the
  IndexError of a fenced reply on one line leaves \<open>extract_and_classify\<close>.  And when a
  fenced reply is not JSON, the summary is the text left after the fence was stripped,
  not the reply, although the error message says that the raw response is shown.
\<close>

theorem reply_parsing_propagates_and_rewrites:
  \<open>extract_and_classify (replying (fence @ ''json {"claims": [], "summary": "ok"} '' @ fence))
     ''some post'' [] [] =
   (Inl IndexError, [MessagesCreate (user_message ''some post'' [])]) \<and>
   extract_and_classify (replying (fence @ ''json'' @ [nl] @ ''not json'' @ [nl] @ fence))
     ''some post'' [] [] =
   (Inr (JDict [(''claims'', JList []), (''summary'', JStr ''not json''),
                (''error'', JStr unparsed)]),
    [MessagesCreate (user_message ''some post'' [])])\<close>
  by (simp add: extract_and_classify_def parse_reply_def strip_fence_def world_defs prog_defs
      string_defs)

section \<open>The analyze endpoint: refusals\<close>

lemma analyze_post_nothing:
  assumes "post_url post = []" and "post_text post = []"
  shows "analyze_post w post tr =
     (Inr (JDict [(''error'', JStr ''Please provide either a URL or some post text.''),
                  (''claims'', JList []), (''summary'', JStr [])]), tr)"
  using assms by (simp add: analyze_post_def refusal_def ret_def)

lemma analyze_post_blank_text:
  assumes "post_url post = []" and "post_text post \<noteq> []" and "strip (post_text post) = []"
  shows "analyze_post w post tr =
     (Inr (JDict [(''error'', JStr ''No text content could be extracted from this post.''),
                  (''claims'', JList []), (''summary'', JStr [])]), tr)"
  using assms by (simp add: analyze_post_def analyze_text_def refusal_def ret_def)

lemma analyze_post_blank_scrape:
  assumes "post_url post \<noteq> []" and "scrape w (post_url post) tr = (Inr r, tr')"
    and "error r = None \<or> error r = Some []"
    and "strip (text_of r @ media_note (image_urls r) ''image'' @
                media_note (video_urls r) ''video'') = []"
  shows "analyze_post w post tr =
     (Inr (JDict [(''error'', JStr ''No text content could be extracted from this post.''),
                  (''claims'', JList []), (''summary'', JStr [])]), tr')"
  using assms
  by (auto simp: analyze_post_def analyze_text_def refusal_def ret_def bnd_def)

lemma analyze_text_url_only:
  "analyze_text w (post\<lparr>post_text := t\<rparr>) = analyze_text w post"
  by (intro ext) (simp add: analyze_text_def)

lemma analyze_post_url_first:
  assumes "post_url post \<noteq> []"
  shows "analyze_post w (post\<lparr>post_text := t\<rparr>) = analyze_post w post"
  using assms unfolding analyze_post_def analyze_text_url_only by simp

text \<open>
  C9.  \<open>analyze_post\<close> with neither URL nor text returns the error that asks for one of
  them, with no claims and an empty summary, and makes no call.  A text of whitespace
  only gets the no-content error, again with no call; so does a scraped post whose text
  (with the notes on its media) is blank, after the events of the scrape and nothing more.
  When a URL is given, the text of the request is not looked at.
\<close>

theorem analyze_post_refusals:
  "(post_url post = [] \<and> post_text post = [] \<longrightarrow>
      analyze_post w post tr =
        (Inr (JDict [(''error'', JStr ''Please provide either a URL or some post text.''),
                     (''claims'', JList []), (''summary'', JStr [])]), tr)) \<and>
   (post_url post = [] \<and> post_text post \<noteq> [] \<and> strip (post_text post) = [] \<longrightarrow>
      analyze_post w post tr =
        (Inr (JDict [(''error'', JStr ''No text content could be extracted from this post.''),
                     (''claims'', JList []), (''summary'', JStr [])]), tr)) \<and>
   (\<forall>r tr'. post_url post \<noteq> [] \<and> scrape w (post_url post) tr = (Inr r, tr') \<and>
      (error r = None \<or> error r = Some []) \<and>
      strip (text_of r @ media_note (image_urls r) ''image'' @
             media_note (video_urls r) ''video'') = [] \<longrightarrow>
      analyze_post w post tr =
        (Inr (JDict [(''error'', JStr ''No text content could be extracted from this post.''),
                     (''claims'', JList []), (''summary'', JStr [])]), tr')) \<and>
   (\<forall>t. post_url post \<noteq> [] \<longrightarrow> analyze_post w (post\<lparr>post_text := t\<rparr>) = analyze_post w post)"
  using analyze_post_nothing analyze_post_blank_text analyze_post_blank_scrape
    analyze_post_url_first
  by blast

text \<open>
  An empty request, a request of three spaces, and a request with both a typed text
  and the URL of an Instagram post whose page has no description.
\<close>

theorem analyze_post_refusals_witness:
  "analyze_post desktop \<lparr>post_text = [], post_url = []\<rparr> [] =
     (Inr (JDict [(''error'', JStr ''Please provide either a URL or some post text.''),
                  (''claims'', JList []), (''summary'', JStr [])]), []) \<and>
   analyze_post desktop \<lparr>post_text = ''   '', post_url = []\<rparr> [] =
     (Inr (JDict [(''error'', JStr ''No text content could be extracted from this post.''),
                  (''claims'', JList []), (''summary'', JStr [])]), []) \<and>
   analyze_post desktop \<lparr>post_text = ''typed'', post_url = ''https://www.instagram.com/p/abc''\<rparr> [] =
     (Inr (JDict [(''error'', JStr ''No text content could be extracted from this post.''),
                  (''claims'', JList []), (''summary'', JStr [])]),
      snd (scrape desktop ''https://www.instagram.com/p/abc'' [])) \<and>
   analyze_post desktop \<lparr>post_text = ''typed'', post_url = ''https://www.instagram.com/p/abc''\<rparr> =
     analyze_post desktop \<lparr>post_text = [], post_url = ''https://www.instagram.com/p/abc''\<rparr>"
proof -
  let ?u = "''https://www.instagram.com/p/abc''"
  let ?run = "scrape desktop ?u []"
  let ?r = "\<lparr>platform = ''instagram'', text_of = [], author = JStr [], image_urls = [],
            video_urls = [], timestamp = JStr [], error = None\<rparr>"
  have f: "fst ?run = Inr ?r"
    by (simp add: scrape_def url_defs world_defs browser_defs prog_defs string_defs)
  then obtain T where run: "?run = (Inr ?r, T)"
    by (cases ?run) auto
  have b: "strip ''   '' = []" by (simp add: string_defs)
  have e: "strip (text_of ?r @ media_note (image_urls ?r) ''image'' @
             media_note (video_urls ?r) ''video'') = []"
    by (simp add: media_note_def strip_def)
  have 1: "analyze_post desktop \<lparr>post_text = [], post_url = []\<rparr> [] =
     (Inr (JDict [(''error'', JStr ''Please provide either a URL or some post text.''),
                  (''claims'', JList []), (''summary'', JStr [])]), [])"
    using analyze_post_refusals[of "\<lparr>post_text = [], post_url = []\<rparr>" desktop "[]"] by simp
  have 2: "analyze_post desktop \<lparr>post_text = ''   '', post_url = []\<rparr> [] =
     (Inr (JDict [(''error'', JStr ''No text content could be extracted from this post.''),
                  (''claims'', JList []), (''summary'', JStr [])]), [])"
    using analyze_post_refusals[of "\<lparr>post_text = ''   '', post_url = []\<rparr>" desktop "[]"] b
    by simp
  note inst = analyze_post_refusals[of "\<lparr>post_text = ''typed'', post_url = ?u\<rparr>" desktop "[]"]
  have "analyze_post desktop \<lparr>post_text = ''typed'', post_url = ?u\<rparr> [] =
     (Inr (JDict [(''error'', JStr ''No text content could be extracted from this post.''),
                  (''claims'', JList []), (''summary'', JStr [])]), T)"
    using inst[THEN conjunct2, THEN conjunct2, THEN conjunct1, rule_format, of ?r T] run e
    by simp
  with run have 3: "analyze_post desktop \<lparr>post_text = ''typed'', post_url = ?u\<rparr> [] =
     (Inr (JDict [(''error'', JStr ''No text content could be extracted from this post.''),
                  (''claims'', JList []), (''summary'', JStr [])]), snd ?run)"
    by simp
  have 4: "analyze_post desktop \<lparr>post_text = ''typed'', post_url = ?u\<rparr> =
     analyze_post desktop \<lparr>post_text = [], post_url = ?u\<rparr>"
    using inst[THEN conjunct2, THEN conjunct2, THEN conjunct2, rule_format, of "[]"]
    by simp
  from 1 2 3 4 show ?thesis by (intro conjI)
qed

end
